theory Spec2Isabelle
  imports Complex_Main "HOL-Library.Product_Lexorder" "HOL-Library.Option_ord"
    "HOL-Library.Multiset" "HOL-Library.Sublist"
begin

section \<open>Kundina: cache manager, background sync queue and diary store\<close>

text \<open>
  The development embeds three parts of the application:
  \<^item> the in-memory cache \<open>IntelligentCache\<close> of the cache manager,
  \<^item> the offline queue \<open>BackgroundSyncManager\<close> of \<open>lib/background-sync.ts\<close>,
  \<^item> the zustand store \<open>useDiaryStore\<close> (both variants) over the Dexie table
    \<open>db.diaryEntries\<close>.

  Effects are explicit.  \<open>Date.now()\<close> and \<open>new Date()\<close> read a clock: the
  \<open>n\<close>-th reading of a run is \<open>clock n\<close>, and the state counts the readings made so
  far (\<open>ticks\<close>), so two readings inside one method may differ, as they may in the
  browser.  Numbers that hold counts, sizes and identifiers are \<open>nat\<close>, timestamps
  and durations are \<open>int\<close> (milliseconds); the one place where the source divides
  (the eviction score) has its own number type with \<open>NaN\<close> and \<open>Infinity\<close>.
\<close>

type_synonym clock = "nat \<Rightarrow> int"

subsection \<open>JavaScript values used by the cache\<close>

text \<open>
  The cache is generic in the cached data \<open>T\<close>, and \<open>get\<close> returns \<open>T | null\<close>.
  A cached value may itself be \<open>null\<close>, so stored data and results share one type.
\<close>

datatype 'a nullable = Null | Val 'a

text \<open>
  The numbers the eviction score can take: \<open>hits / (age / 1000 / 60)\<close> with
  \<open>hits\<close> a count and \<open>age\<close> an integer.  Division by \<open>+0\<close> gives \<open>NaN\<close> for
  \<open>0 / 0\<close> and \<open>Infinity\<close> otherwise; finite quotients are kept exact, where the
  source rounds to a double.  Two scores closer than that rounding may compare
  differently in the source, so that it selects another key of the cache than
  the scan below; whether a key is selected at all does not depend on it.
\<close>

datatype jsnum = NaN | Fin rat | PosInf

fun js_lt :: "jsnum \<Rightarrow> jsnum \<Rightarrow> bool" where
  "js_lt NaN _ = False"
| "js_lt _ NaN = False"
| "js_lt PosInf _ = False"
| "js_lt (Fin a) PosInf = True"
| "js_lt (Fin a) (Fin b) = (a < b)"

definition score :: "nat \<Rightarrow> int \<Rightarrow> jsnum" where
  "score h age =
     (if age = 0 then (if h = 0 then NaN else PosInf)
      else Fin (of_nat h / (of_int age / 1000 / 60)))"

text \<open>A truthiness test on \<open>string | null\<close>: \<open>null\<close> and the empty string are falsy.\<close>

fun truthy_key :: "string option \<Rightarrow> bool" where
  "truthy_key None = False"
| "truthy_key (Some k) = (k \<noteq> [])"

subsection \<open>A JavaScript \<open>Map\<close> with string keys\<close>

text \<open>
  A \<open>Map\<close> iterates in insertion order; \<open>set\<close> on a key that is present replaces
  the value in place, on a new key it appends; \<open>delete\<close> removes the key.
\<close>

type_synonym 'v jsmap = "(string \<times> 'v) list"

fun map_set :: "string \<Rightarrow> 'v \<Rightarrow> 'v jsmap \<Rightarrow> 'v jsmap" where
  "map_set k v [] = [(k, v)]"
| "map_set k v ((k', v') # m) =
     (if k' = k then (k, v) # m else (k', v') # map_set k v m)"

definition map_delete :: "string \<Rightarrow> 'v jsmap \<Rightarrow> 'v jsmap" where
  "map_delete k m = filter (\<lambda>(k', v). k' \<noteq> k) m"

subsection \<open>The cache: \<open>IntelligentCache\<close>\<close>

record 'a CacheItem =
  data :: "'a nullable"
  timestamp :: int
  ttl :: int
  hits :: nat
  item_size :: nat

record CacheStats =
  totalItems :: nat
  totalSize :: nat
  hitRate :: rat
  missRate :: rat
  oldestItem :: int
  newestItem :: int

record 'a IntelligentCache =
  cache :: "'a CacheItem jsmap"
  maxSize :: int
  maxItems :: int
  cache_hits :: nat
  misses :: nat
  tags :: "string \<rightharpoonup> string list"
  ticks :: nat

text \<open>\<open>Date.now()\<close>: the next reading of the clock.\<close>

definition date_now :: "clock \<Rightarrow> 'a IntelligentCache \<Rightarrow> int \<times> 'a IntelligentCache" where
  "date_now clk s = (clk (ticks s), s\<lparr>ticks := Suc (ticks s)\<rparr>)"

text \<open>The constructor, with its defaults of 50 MB and 1000 items.\<close>

definition new_cache :: "int \<Rightarrow> int \<Rightarrow> 'a IntelligentCache" where
  "new_cache ms mi =
     \<lparr>cache = [], maxSize = ms, maxItems = mi, cache_hits = 0, misses = 0,
      tags = Map.empty, ticks = 0\<rparr>"


text \<open>
  \<open>getStats\<close> reads the clock once (the start value of \<open>oldestItem\<close>) and folds
  over the values.
\<close>

definition getStats :: "clock \<Rightarrow> 'a IntelligentCache \<Rightarrow> CacheStats \<times> 'a IntelligentCache" where
  "getStats clk s =
     (let (now, s1) = date_now clk s;
          items = map snd (cache s1);
          total = sum_list (map item_size items);
          oldest = fold (\<lambda>it acc. min acc (timestamp it)) items now;
          newest = fold (\<lambda>it acc. max acc (timestamp it)) items 0;
          totalRequests = cache_hits s1 + misses s1
      in (\<lparr>totalItems = length (cache s1), totalSize = total,
            hitRate = (if totalRequests > 0 then of_nat (cache_hits s1) / of_nat totalRequests else 0),
            missRate = (if totalRequests > 0 then of_nat (misses s1) / of_nat totalRequests else 0),
            oldestItem = oldest, newestItem = newest\<rparr>, s1))"

definition shouldEvict :: "clock \<Rightarrow> 'a IntelligentCache \<Rightarrow> bool \<times> 'a IntelligentCache" where
  "shouldEvict clk s =
     (let (stats, s1) = getStats clk s
      in (int (totalItems stats) \<ge> maxItems s1 \<or> int (totalSize stats) \<ge> maxSize s1, s1))"

text \<open>
  The scan of \<open>evictLRU\<close>: the loop variables are \<open>lruKey\<close> and \<open>lruScore\<close>; every
  iteration reads the clock.
\<close>

fun lru_scan :: "clock \<Rightarrow> nat \<Rightarrow> 'a CacheItem jsmap \<Rightarrow> string option \<times> jsnum
    \<Rightarrow> (string option \<times> jsnum) \<times> nat" where
  "lru_scan clk t [] acc = (acc, t)"
| "lru_scan clk t ((key, item) # rest) (lruKey, lruScore) =
     (let age = clk t - timestamp item;
          sc = score (hits item) age
      in lru_scan clk (Suc t) rest
           (if js_lt sc lruScore then (Some key, sc) else (lruKey, lruScore)))"

definition evictLRU :: "clock \<Rightarrow> 'a IntelligentCache \<Rightarrow> 'a IntelligentCache" where
  "evictLRU clk s =
     (if length (cache s) = 0 then s
      else
        (let ((lruKey, lruScore), t) = lru_scan clk (ticks s) (cache s) (None, PosInf);
             s1 = s\<lparr>ticks := t\<rparr>
         in if truthy_key lruKey
            then (case lruKey of Some k \<Rightarrow> s1\<lparr>cache := map_delete k (cache s1)\<rparr> | None \<Rightarrow> s1)
            else s1))"

text \<open>
  The eviction loop of \<open>set\<close>, \<open>while (this.shouldEvict()) this.evictLRU()\<close>.
  Nothing in the source bounds it, so it is a partial function: \<open>None\<close> means that
  the loop does not return.
\<close>

partial_function (option) evict_loop :: "clock \<Rightarrow> 'a IntelligentCache \<Rightarrow> 'a IntelligentCache option" where
  "evict_loop clk s =
     (case shouldEvict clk s of
        (b, s1) \<Rightarrow> if b then evict_loop clk (evictLRU clk s1) else Some s1)"

text \<open>
  \<open>set\<close>.  \<open>calculateSize\<close> (the byte length of the JSON text of the data) is a
  parameter.  The size test \<open>size > maxSize * 0.1\<close> is taken in exact arithmetic.
\<close>

definition cache_set :: "clock \<Rightarrow> ('a nullable \<Rightarrow> nat) \<Rightarrow> string \<Rightarrow> 'a nullable \<Rightarrow> int
    \<Rightarrow> 'a IntelligentCache \<Rightarrow> 'a IntelligentCache option" where
  "cache_set clk calculateSize key d ttl0 s =
     (let sz = calculateSize d
      in if (of_nat sz :: rat) > of_int (maxSize s) * (1 / 10) then Some s
         else
           (case evict_loop clk s of
              None \<Rightarrow> None
            | Some s1 \<Rightarrow>
                (let (now, s2) = date_now clk s1
                 in Some (s2\<lparr>cache := map_set key
                            \<lparr>data = d, timestamp = now, ttl = ttl0, hits = 0, item_size = sz\<rparr>
                            (cache s2)\<rparr>))))"

text \<open>\<open>get\<close>: the result and the new state.\<close>

definition cache_get :: "clock \<Rightarrow> string \<Rightarrow> 'a IntelligentCache \<Rightarrow> 'a nullable \<times> 'a IntelligentCache" where
  "cache_get clk key s =
     (case map_of (cache s) key of
        None \<Rightarrow> (Null, s\<lparr>misses := Suc (misses s)\<rparr>)
      | Some item \<Rightarrow>
          (let (now, s1) = date_now clk s
           in if now - timestamp item > ttl item
              then (Null, s1\<lparr>cache := map_delete key (cache s1), misses := Suc (misses s1)\<rparr>)
              else
                (let (now2, s2) = date_now clk s1;
                     item' = item\<lparr>hits := Suc (hits item), timestamp := now2\<rparr>
                 in (data item',
                     s2\<lparr>cache := map_set key item' (cache s2),
                        cache_hits := Suc (cache_hits s2)\<rparr>))))"

text \<open>\<open>setWithTags\<close> and \<open>invalidateByTag\<close>; a \<open>Set\<close> of keys is a list without repetition.\<close>

definition set_add :: "string \<Rightarrow> string list \<Rightarrow> string list" where
  "set_add k ks = (if k \<in> set ks then ks else ks @ [k])"

definition tag_key :: "string \<Rightarrow> string \<Rightarrow> (string \<rightharpoonup> string list) \<Rightarrow> (string \<rightharpoonup> string list)" where
  "tag_key key tag tg =
     (let tg1 = (if tg tag = None then tg(tag \<mapsto> []) else tg)
      in case tg1 tag of Some ks \<Rightarrow> tg1(tag \<mapsto> set_add key ks) | None \<Rightarrow> tg1)"

definition setWithTags :: "clock \<Rightarrow> ('a nullable \<Rightarrow> nat) \<Rightarrow> string \<Rightarrow> 'a nullable \<Rightarrow> string list
    \<Rightarrow> int option \<Rightarrow> 'a IntelligentCache \<Rightarrow> 'a IntelligentCache option" where
  "setWithTags clk calculateSize key d tgs ttl_opt s =
     (case cache_set clk calculateSize key d
             (case ttl_opt of None \<Rightarrow> 30 * 60 * 1000 | Some t \<Rightarrow> t) s of
        None \<Rightarrow> None
      | Some s1 \<Rightarrow> Some (s1\<lparr>tags := fold (tag_key key) tgs (tags s1)\<rparr>))"

definition invalidateByTag :: "string \<Rightarrow> 'a IntelligentCache \<Rightarrow> 'a IntelligentCache" where
  "invalidateByTag tag s =
     (case tags s tag of
        None \<Rightarrow> s
      | Some keys \<Rightarrow>
          s\<lparr>cache := fold map_delete keys (cache s), tags := (tags s)(tag := None)\<rparr>)"

text \<open>A key is registered under a tag when the tag's key set holds it.\<close>

definition registered_in :: "(string \<rightharpoonup> string list) \<Rightarrow> string \<Rightarrow> string \<Rightarrow> bool" where
  "registered_in tg tag key = (case tg tag of None \<Rightarrow> False | Some ks \<Rightarrow> key \<in> set ks)"

subsection \<open>Diary entries and the Dexie table \<open>db.diaryEntries\<close>\<close>

datatype MoodType = Happy | Sad | Neutral | Excited | Anxious | Angry | Grateful | Stressed

datatype SyncStatus = Synced | Pending | Conflict

text \<open>
  \<open>DiaryEntry\<close>.  Optional properties are options.  The property
  \<open>conflictVersion?: DiaryEntry\<close> makes the interface recursive; the record keeps one
  level of it (an entry without a conflict version of its own).  None of the
  operations below reads it.
\<close>

record EntryCore =
  entry_id :: "nat option"
  title :: string
  content :: string
  date :: int
  categoryId :: "nat option"
  mood :: "MoodType option"
  weather :: "string option"
  location :: "string option"
  entry_tags :: "string list"
  wordCount :: nat
  readingTime :: nat
  isPrivate :: bool
  isFavorite :: bool
  templateUsed :: "string option"
  linkedEntryIds :: "nat list option"
  syncStatus :: SyncStatus
  lastSyncedAt :: "int option"
  deviceId :: string
  version :: nat
  createdAt :: int
  updatedAt :: int

record DiaryEntry = EntryCore +
  conflictVersion :: "EntryCore option"

text \<open>
  \<open>Partial<DiaryEntry>\<close>, as passed to \<open>update\<close>: the properties that are present,
  in the order of the object literal (a later one overrides an earlier one).  The
  primary key is not among them.
\<close>

datatype change =
    Set_title string
  | Set_content string
  | Set_date int
  | Set_categoryId "nat option"
  | Set_mood "MoodType option"
  | Set_weather "string option"
  | Set_location "string option"
  | Set_tags "string list"
  | Set_wordCount nat
  | Set_readingTime nat
  | Set_isPrivate bool
  | Set_isFavorite bool
  | Set_templateUsed "string option"
  | Set_linkedEntryIds "nat list option"
  | Set_syncStatus SyncStatus
  | Set_lastSyncedAt "int option"
  | Set_conflictVersion "EntryCore option"
  | Set_deviceId string
  | Set_version nat
  | Set_createdAt int
  | Set_updatedAt int

fun apply_change :: "change \<Rightarrow> DiaryEntry \<Rightarrow> DiaryEntry" where
  "apply_change (Set_title v) e = e\<lparr>title := v\<rparr>"
| "apply_change (Set_content v) e = e\<lparr>content := v\<rparr>"
| "apply_change (Set_date v) e = e\<lparr>date := v\<rparr>"
| "apply_change (Set_categoryId v) e = e\<lparr>categoryId := v\<rparr>"
| "apply_change (Set_mood v) e = e\<lparr>mood := v\<rparr>"
| "apply_change (Set_weather v) e = e\<lparr>weather := v\<rparr>"
| "apply_change (Set_location v) e = e\<lparr>location := v\<rparr>"
| "apply_change (Set_tags v) e = e\<lparr>entry_tags := v\<rparr>"
| "apply_change (Set_wordCount v) e = e\<lparr>wordCount := v\<rparr>"
| "apply_change (Set_readingTime v) e = e\<lparr>readingTime := v\<rparr>"
| "apply_change (Set_isPrivate v) e = e\<lparr>isPrivate := v\<rparr>"
| "apply_change (Set_isFavorite v) e = e\<lparr>isFavorite := v\<rparr>"
| "apply_change (Set_templateUsed v) e = e\<lparr>templateUsed := v\<rparr>"
| "apply_change (Set_linkedEntryIds v) e = e\<lparr>linkedEntryIds := v\<rparr>"
| "apply_change (Set_syncStatus v) e = e\<lparr>syncStatus := v\<rparr>"
| "apply_change (Set_lastSyncedAt v) e = e\<lparr>lastSyncedAt := v\<rparr>"
| "apply_change (Set_conflictVersion v) e = e\<lparr>conflictVersion := v\<rparr>"
| "apply_change (Set_deviceId v) e = e\<lparr>deviceId := v\<rparr>"
| "apply_change (Set_version v) e = e\<lparr>version := v\<rparr>"
| "apply_change (Set_createdAt v) e = e\<lparr>createdAt := v\<rparr>"
| "apply_change (Set_updatedAt v) e = e\<lparr>updatedAt := v\<rparr>"

datatype exn = DbError | ConstraintError | Error string

datatype event = DiaryEntrySynced nat DiaryEntry | DiaryEntryDeleted nat

datatype ItemType = Create | Update | Delete

record SyncQueueItem =
  item_id :: string
  item_type :: ItemType
  entryId :: "nat option"
  item_data :: "change list option"
  item_timestamp :: int
  retryCount :: nat
  maxRetries :: nat

text \<open>
  Everything outside the objects themselves: the rows of \<open>db.diaryEntries\<close> and its
  key generator, the number of storage calls and clock readings made so far, the
  pending timeouts (identifier and delay), the events dispatched on \<open>window\<close>, and
  the queue as last saved to local storage.
\<close>

record world =
  rows :: "DiaryEntry list"
  nextId :: nat
  calls :: nat
  w_ticks :: nat
  timers :: "(nat \<times> int) list"
  nextTimer :: nat
  events :: "event list"
  ls_queue :: "SyncQueueItem list option"

text \<open>
  What the browser supplies: the clock, whether the \<open>n\<close>-th storage call rejects,
  and the built-in string functions the store calls.
\<close>

record platform =
  clock :: clock
  faults :: "nat \<Rightarrow> bool"
  toLowerCase :: "string \<Rightarrow> string"
  toISOString :: "int \<Rightarrow> string"
  toLocaleDateString :: "int \<Rightarrow> string"
  json_stringify :: "DiaryEntry list \<Rightarrow> string"

definition new_Date :: "platform \<Rightarrow> world \<Rightarrow> int \<times> world" where
  "new_Date pf w = (clock pf (w_ticks w), w\<lparr>w_ticks := Suc (w_ticks w)\<rparr>)"

definition setTimeout :: "int \<Rightarrow> world \<Rightarrow> nat \<times> world" where
  "setTimeout delay w =
     (nextTimer w, w\<lparr>timers := timers w @ [(nextTimer w, delay)], nextTimer := Suc (nextTimer w)\<rparr>)"

definition clearTimeout :: "nat \<Rightarrow> world \<Rightarrow> world" where
  "clearTimeout tid w = w\<lparr>timers := filter (\<lambda>(i, d). i \<noteq> tid) (timers w)\<rparr>"

text \<open>
  The table operations the application calls.  Each is one storage call: it rejects
  when the platform says so and leaves the rows as they are; otherwise it behaves
  as Dexie documents it for a table with the schema \<open>++id, ..., date, ...\<close>.
\<close>

definition storage_call :: "platform \<Rightarrow> world \<Rightarrow> bool \<times> world" where
  "storage_call pf w = (faults pf (calls w), w\<lparr>calls := Suc (calls w)\<rparr>)"

definition tbl_get :: "platform \<Rightarrow> nat \<Rightarrow> world \<Rightarrow> (exn + DiaryEntry option) \<times> world" where
  "tbl_get pf key w =
     (let (failed, w1) = storage_call pf w
      in if failed then (Inl DbError, w1)
         else (Inr (find (\<lambda>e. entry_id e = Some key) (rows w1)), w1))"

definition tbl_update :: "platform \<Rightarrow> nat \<Rightarrow> change list \<Rightarrow> world \<Rightarrow> (exn + nat) \<times> world" where
  "tbl_update pf key changes w =
     (let (failed, w1) = storage_call pf w
      in if failed then (Inl DbError, w1)
         else (Inr (if \<exists>e \<in> set (rows w1). entry_id e = Some key then 1 else 0),
               w1\<lparr>rows := map (\<lambda>e. if entry_id e = Some key then fold apply_change changes e else e)
                              (rows w1)\<rparr>))"

definition tbl_add :: "platform \<Rightarrow> DiaryEntry \<Rightarrow> world \<Rightarrow> (exn + nat) \<times> world" where
  "tbl_add pf e w =
     (let (failed, w1) = storage_call pf w
      in if failed then (Inl DbError, w1)
         else
           (case entry_id e of
              None \<Rightarrow>
                (Inr (nextId w1),
                 w1\<lparr>rows := rows w1 @ [e\<lparr>entry_id := Some (nextId w1)\<rparr>], nextId := Suc (nextId w1)\<rparr>)
            | Some k \<Rightarrow>
                if \<exists>r \<in> set (rows w1). entry_id r = Some k then (Inl ConstraintError, w1)
                else (Inr k, w1\<lparr>rows := rows w1 @ [e], nextId := max (nextId w1) (Suc k)\<rparr>)))"

definition tbl_delete :: "platform \<Rightarrow> nat \<Rightarrow> world \<Rightarrow> (exn + unit) \<times> world" where
  "tbl_delete pf key w =
     (let (failed, w1) = storage_call pf w
      in if failed then (Inl DbError, w1)
         else (Inr (), w1\<lparr>rows := filter (\<lambda>e. entry_id e \<noteq> Some key) (rows w1)\<rparr>))"

text \<open>
  \<open>orderBy('date').reverse().toArray()\<close>: the index on \<open>date\<close> orders by date and
  then by primary key; \<open>reverse\<close> reads it backwards.
\<close>

definition tbl_orderBy_date_reverse :: "platform \<Rightarrow> world \<Rightarrow> (exn + DiaryEntry list) \<times> world" where
  "tbl_orderBy_date_reverse pf w =
     (let (failed, w1) = storage_call pf w
      in if failed then (Inl DbError, w1)
         else (Inr (rev (sort_key (\<lambda>e. (date e, entry_id e)) (rows w1))), w1))"

subsection \<open>The sync queue: \<open>BackgroundSyncManager\<close>\<close>

record BackgroundSyncManager =
  syncQueue :: "SyncQueueItem list"
  isOnline :: bool
  syncInProgress :: bool
  retryTimeouts :: "string \<rightharpoonup> nat"

text \<open>A truthiness test on \<open>number | undefined\<close>: \<open>undefined\<close> and \<open>0\<close> are falsy.\<close>

fun truthy_num :: "nat option \<Rightarrow> bool" where
  "truthy_num None = False"
| "truthy_num (Some n) = (n \<noteq> 0)"

definition saveSyncQueue :: "BackgroundSyncManager \<Rightarrow> world \<Rightarrow> world" where
  "saveSyncQueue m w = w\<lparr>ls_queue := Some (syncQueue m)\<rparr>"

definition syncEntry :: "platform \<Rightarrow> nat \<Rightarrow> change list \<Rightarrow> world \<Rightarrow> (exn + unit) \<times> world" where
  "syncEntry pf eid d w =
     (case tbl_get pf eid w of
        (Inl e, w1) \<Rightarrow> (Inl e, w1)
      | (Inr None, w1) \<Rightarrow> (Inr (), w1)
      | (Inr (Some entry), w1) \<Rightarrow>
          (let (t1, w2) = new_Date pf w1;
               (t2, w3) = new_Date pf w2
           in case tbl_update pf eid
                     [Set_syncStatus Synced, Set_lastSyncedAt (Some t1), Set_updatedAt t2] w3 of
                (Inl e, w4) \<Rightarrow> (Inl e, w4)
              | (Inr n, w4) \<Rightarrow> (Inr (), w4\<lparr>events := events w4 @ [DiaryEntrySynced eid entry]\<rparr>)))"

definition syncDelete :: "nat \<Rightarrow> world \<Rightarrow> (exn + unit) \<times> world" where
  "syncDelete eid w = (Inr (), w\<lparr>events := events w @ [DiaryEntryDeleted eid]\<rparr>)"

definition syncItem :: "platform \<Rightarrow> SyncQueueItem \<Rightarrow> world \<Rightarrow> (exn + unit) \<times> world" where
  "syncItem pf item w =
     (let create_or_update =
            (if truthy_num (entryId item) \<and> item_data item \<noteq> None
             then (case (entryId item, item_data item) of
                     (Some eid, Some d) \<Rightarrow> syncEntry pf eid d w
                   | _ \<Rightarrow> (Inr (), w))
             else (Inr (), w))
      in case item_type item of
           Create \<Rightarrow> create_or_update
         | Update \<Rightarrow> create_or_update
         | Delete \<Rightarrow>
             (if truthy_num (entryId item)
              then (case entryId item of Some eid \<Rightarrow> syncDelete eid w | None \<Rightarrow> (Inr (), w))
              else (Inr (), w)))"

text \<open>\<open>scheduleRetry\<close>: the delay is \<open>Math.pow(2, item.retryCount) * 1000\<close>.\<close>

definition scheduleRetry :: "SyncQueueItem \<Rightarrow> BackgroundSyncManager \<times> world
    \<Rightarrow> BackgroundSyncManager \<times> world" where
  "scheduleRetry item mw =
     (case mw of (m, w) \<Rightarrow>
        (let delay = 2 ^ retryCount item * 1000;
             (timeoutId, w1) = setTimeout delay w
         in (m\<lparr>retryTimeouts := (retryTimeouts m)(item_id item \<mapsto> timeoutId)\<rparr>, w1)))"

text \<open>
  The body of the loop of \<open>processQueue\<close> for one item; \<open>failedItems\<close> is the third
  component.
\<close>

definition process_item :: "platform \<Rightarrow> SyncQueueItem
    \<Rightarrow> BackgroundSyncManager \<times> world \<times> SyncQueueItem list
    \<Rightarrow> BackgroundSyncManager \<times> world \<times> SyncQueueItem list" where
  "process_item pf item st =
     (case st of (m, w, failedItems) \<Rightarrow>
        (case syncItem pf item w of
           (Inr u, w1) \<Rightarrow>
             (case retryTimeouts m (item_id item) of
                Some tid \<Rightarrow>
                  (m\<lparr>retryTimeouts := (retryTimeouts m)(item_id item := None)\<rparr>,
                   clearTimeout tid w1, failedItems)
              | None \<Rightarrow> (m, w1, failedItems))
         | (Inl e, w1) \<Rightarrow>
             (if retryCount item < maxRetries item
              then (let item' = item\<lparr>retryCount := Suc (retryCount item)\<rparr>;
                        (m1, w2) = scheduleRetry item' (m, w1)
                    in (m1, w2, failedItems @ [item']))
              else (m, w1, failedItems))))"

definition processQueue :: "platform \<Rightarrow> BackgroundSyncManager \<times> world
    \<Rightarrow> BackgroundSyncManager \<times> world" where
  "processQueue pf mw =
     (case mw of (m, w) \<Rightarrow>
        if syncInProgress m \<or> \<not> isOnline m \<or> length (syncQueue m) = 0 then (m, w)
        else
          (let m1 = m\<lparr>syncInProgress := True\<rparr>;
               (m2, w2, failedItems) = fold (process_item pf) (syncQueue m1) (m1, w, []);
               m3 = m2\<lparr>syncQueue := failedItems\<rparr>;
               w3 = saveSyncQueue m3 w2
           in (m3\<lparr>syncInProgress := False\<rparr>, w3)))"

text \<open>Decimal digits of a number, as \<open>toString\<close> and template literals print it.\<close>

definition digit_char :: "nat \<Rightarrow> char" where
  "digit_char n = ''0123456789'' ! n"

function show_nat :: "nat \<Rightarrow> string" where
  "show_nat n =
     (if n < 10 then [digit_char n]
      else show_nat (n div 10) @ [digit_char (n mod 10)])"
  by pat_completeness auto
termination
  by (relation "measure id") auto

declare show_nat.simps [simp del]

fun type_name :: "ItemType \<Rightarrow> string" where
  "type_name Create = ''create''"
| "type_name Update = ''update''"
| "type_name Delete = ''delete''"

text \<open>
  \<open>addToQueue\<close>.  The random suffix of the identifier is an argument.  The call of
  \<open>processQueue\<close> that follows when online is not awaited in the source; here it
  runs to its end before \<open>addToQueue\<close> returns.
\<close>

definition addToQueue :: "platform \<Rightarrow> string \<Rightarrow> ItemType \<Rightarrow> nat option \<Rightarrow> change list option
    \<Rightarrow> BackgroundSyncManager \<times> world \<Rightarrow> string \<times> BackgroundSyncManager \<times> world" where
  "addToQueue pf random_suffix ty eid d mw =
     (case mw of (m, w) \<Rightarrow>
        (let (t0, w1) = (if truthy_num eid then (0, w) else new_Date pf w);
             idnum = (case eid of Some n \<Rightarrow> if n \<noteq> 0 then n else nat t0 | None \<Rightarrow> nat t0);
             (ts, w2) = new_Date pf w1;
             queueItem = \<lparr>item_id = type_name ty @ ''_'' @ show_nat idnum @ ''_'' @ random_suffix,
                          item_type = ty, entryId = eid, item_data = d, item_timestamp = ts,
                          retryCount = 0, maxRetries = 3\<rparr>;
             m1 = m\<lparr>syncQueue := syncQueue m @ [queueItem]\<rparr>;
             w3 = saveSyncQueue m1 w2;
             (m2, w4) = (if isOnline m1 then processQueue pf (m1, w3) else (m1, w3))
         in (item_id queueItem, m2, w4)))"

subsection \<open>The diary store: \<open>useDiaryStore\<close>\<close>

record SearchFilters =
  query :: "string option"
  f_tags :: "string list option"
  f_mood :: "MoodType option"
  dateFrom :: "int option"
  dateTo :: "int option"
  f_isPrivate :: "bool option"
  f_isFavorite :: "bool option"

definition no_filters :: SearchFilters where
  "no_filters = \<lparr>query = None, f_tags = None, f_mood = None, dateFrom = None, dateTo = None,
                  f_isPrivate = None, f_isFavorite = None\<rparr>"

record DiaryStore =
  entries :: "DiaryEntry list"
  filteredEntries :: "DiaryEntry list"
  loading :: bool
  error :: "string option"
  currentFilters :: SearchFilters

definition initial_store :: DiaryStore where
  "initial_store =
     \<lparr>entries = [], filteredEntries = [], loading = False, error = None,
      currentFilters = no_filters\<rparr>"

text \<open>\<open>String.prototype.includes\<close>: the argument occurs as a contiguous part.\<close>

fun js_includes :: "string \<Rightarrow> string \<Rightarrow> bool" where
  "js_includes [] q = (q = [])"
| "js_includes (c # cs) q = (prefix q (c # cs) \<or> js_includes cs q)"

text \<open>\<open>x?.toLowerCase().includes(q)\<close> on an optional string: \<open>undefined\<close> is falsy.\<close>

definition opt_includes :: "platform \<Rightarrow> string option \<Rightarrow> string \<Rightarrow> bool" where
  "opt_includes pf x q = (case x of None \<Rightarrow> False | Some v \<Rightarrow> js_includes (toLowerCase pf v) q)"

definition applyFilters :: "platform \<Rightarrow> DiaryEntry list \<Rightarrow> SearchFilters \<Rightarrow> DiaryEntry list" where
  "applyFilters pf es filters =
     (let filtered = es;
          filtered =
            (case query filters of
               Some q \<Rightarrow>
                 if q \<noteq> [] then
                   (let q' = toLowerCase pf q
                    in filter (\<lambda>entry.
                         js_includes (toLowerCase pf (title entry)) q' \<or>
                         js_includes (toLowerCase pf (content entry)) q' \<or>
                         opt_includes pf (location entry) q' \<or>
                         opt_includes pf (weather entry) q') filtered)
                 else filtered
             | None \<Rightarrow> filtered);
          filtered =
            (case f_tags filters of
               Some ts \<Rightarrow>
                 if length ts > 0
                 then filter (\<lambda>entry. list_ex (\<lambda>tag. tag \<in> set (entry_tags entry)) ts) filtered
                 else filtered
             | None \<Rightarrow> filtered);
          filtered =
            (case f_mood filters of
               Some m \<Rightarrow> filter (\<lambda>entry. mood entry = Some m) filtered
             | None \<Rightarrow> filtered);
          filtered =
            (case dateFrom filters of
               Some d \<Rightarrow> filter (\<lambda>entry. date entry \<ge> d) filtered
             | None \<Rightarrow> filtered);
          filtered =
            (case dateTo filters of
               Some d \<Rightarrow> filter (\<lambda>entry. date entry \<le> d) filtered
             | None \<Rightarrow> filtered);
          filtered =
            (case f_isPrivate filters of
               Some b \<Rightarrow> filter (\<lambda>entry. isPrivate entry = b) filtered
             | None \<Rightarrow> filtered);
          filtered =
            (case f_isFavorite filters of
               Some b \<Rightarrow> filter (\<lambda>entry. isFavorite entry = b) filtered
             | None \<Rightarrow> filtered)
      in filtered)"

text \<open>
  The actions.  Each takes and returns the world and the store.  An action whose
  body is wrapped in \<open>try\<close>/\<open>catch\<close> has the rejected storage call as the
  \<open>Inl\<close> branch; nothing else in its body can throw, so the action itself always
  returns a state.
\<close>

definition fetchEntries :: "platform \<Rightarrow> world \<times> DiaryStore \<Rightarrow> world \<times> DiaryStore" where
  "fetchEntries pf ws =
     (case ws of (w, s) \<Rightarrow>
        (let s1 = s\<lparr>loading := True, error := None\<rparr>
         in case tbl_orderBy_date_reverse pf w of
              (Inr es, w1) \<Rightarrow>
                (w1, s1\<lparr>entries := es,
                        filteredEntries := applyFilters pf es (currentFilters s1),
                        loading := False\<rparr>)
            | (Inl e, w1) \<Rightarrow>
                (w1, s1\<lparr>error := Some ''Failed to fetch diary entries'', loading := False\<rparr>)))"

text \<open>
  \<open>addEntry\<close>.  The payload is an entry whose \<open>id\<close>, \<open>createdAt\<close> and \<open>updatedAt\<close>
  are not part of the argument's type: the first is absent in the entry that is
  stored, the other two are set.  \<open>x || d\<close> on a number or a boolean keeps a truthy
  \<open>x\<close>; an array is always truthy.  After a successful add the action posts the
  streak check with a delay of one second.
\<close>

definition addEntry :: "platform \<Rightarrow> DiaryEntry \<Rightarrow> world \<times> DiaryStore \<Rightarrow> world \<times> DiaryStore" where
  "addEntry pf entryData ws =
     (case ws of (w, s) \<Rightarrow>
        (let s1 = s\<lparr>loading := True, error := None\<rparr>;
             (now, w1) = new_Date pf w;
             entry = entryData
               \<lparr>entry_id := None,
                entry_tags := entry_tags entryData,
                wordCount := (if wordCount entryData \<noteq> 0 then wordCount entryData else 0),
                readingTime := (if readingTime entryData \<noteq> 0 then readingTime entryData else 0),
                isPrivate := (if isPrivate entryData then isPrivate entryData else False),
                isFavorite := (if isFavorite entryData then isFavorite entryData else False),
                createdAt := now,
                updatedAt := now\<rparr>
         in case tbl_add pf entry w1 of
              (Inl e, w2) \<Rightarrow>
                (w2, s1\<lparr>error := Some ''Failed to add diary entry'', loading := False\<rparr>)
            | (Inr k, w2) \<Rightarrow>
                (case fetchEntries pf (w2, s1) of
                   (w3, s2) \<Rightarrow> (snd (setTimeout 1000 w3), s2))))"

definition updateEntry :: "platform \<Rightarrow> nat \<Rightarrow> change list \<Rightarrow> world \<times> DiaryStore \<Rightarrow> world \<times> DiaryStore" where
  "updateEntry pf key entryData ws =
     (case ws of (w, s) \<Rightarrow>
        (let s1 = s\<lparr>loading := True, error := None\<rparr>;
             (now, w1) = new_Date pf w
         in case tbl_update pf key (entryData @ [Set_updatedAt now]) w1 of
              (Inl e, w2) \<Rightarrow>
                (w2, s1\<lparr>error := Some ''Failed to update diary entry'', loading := False\<rparr>)
            | (Inr n, w2) \<Rightarrow> fetchEntries pf (w2, s1)))"

definition deleteEntry :: "platform \<Rightarrow> nat \<Rightarrow> world \<times> DiaryStore \<Rightarrow> world \<times> DiaryStore" where
  "deleteEntry pf key ws =
     (case ws of (w, s) \<Rightarrow>
        (let s1 = s\<lparr>loading := True, error := None\<rparr>
         in case tbl_delete pf key w of
              (Inl e, w1) \<Rightarrow>
                (w1, s1\<lparr>error := Some ''Failed to delete diary entry'', loading := False\<rparr>)
            | (Inr u, w1) \<Rightarrow> fetchEntries pf (w1, s1)))"



text \<open>
  \<open>exportEntries\<close>.  \<open>Array.prototype.join\<close>, and \<open>replace\<close> with a global
  pattern of one character.
\<close>

fun js_join :: "string \<Rightarrow> string list \<Rightarrow> string" where
  "js_join sep [] = []"
| "js_join sep [x] = x"
| "js_join sep (x # y # ys) = x @ sep @ js_join sep (y # ys)"

definition replace_all :: "char \<Rightarrow> string \<Rightarrow> string \<Rightarrow> string" where
  "replace_all c r s = concat (map (\<lambda>x. if x = c then r else [x]) s)"

definition dquote :: char where
  "dquote = CHR 0x22"

definition newline :: char where
  "newline = CHR 0x0A"

definition backslash :: char where
  "backslash = CHR 0x5C"

fun mood_name :: "MoodType \<Rightarrow> string" where
  "mood_name Happy = ''happy''"
| "mood_name Sad = ''sad''"
| "mood_name Neutral = ''neutral''"
| "mood_name Excited = ''excited''"
| "mood_name Anxious = ''anxious''"
| "mood_name Angry = ''angry''"
| "mood_name Grateful = ''grateful''"
| "mood_name Stressed = ''stressed''"

definition bool_toString :: "bool \<Rightarrow> string" where
  "bool_toString b = (if b then ''true'' else ''false'')"

text \<open>\<open>x || ''\<close> on an optional string.\<close>

definition or_empty :: "string option \<Rightarrow> string" where
  "or_empty x = (case x of None \<Rightarrow> [] | Some v \<Rightarrow> v)"

definition csv_headers :: "string list" where
  "csv_headers = [''Date'', ''Title'', ''Content'', ''Mood'', ''Tags'', ''Location'', ''Weather'',
                  ''Word Count'', ''Private'', ''Favorite'']"

text \<open>The arrow function that \<open>entries.map\<close> applies in the \<open>csv\<close> case.\<close>

definition csv_row :: "platform \<Rightarrow> DiaryEntry \<Rightarrow> string" where
  "csv_row pf entry =
     js_join '',''
       [takeWhile (\<lambda>c. c \<noteq> CHR ''T'') (toISOString pf (date entry)),
        [dquote] @ replace_all dquote [dquote, dquote] (title entry) @ [dquote],
        [dquote] @ replace_all newline [backslash, CHR ''n'']
                     (replace_all dquote [dquote, dquote] (content entry)) @ [dquote],
        (case mood entry of None \<Rightarrow> [] | Some m \<Rightarrow> mood_name m),
        [dquote] @ js_join '', '' (entry_tags entry) @ [dquote],
        or_empty (location entry),
        or_empty (weather entry),
        show_nat (wordCount entry),
        bool_toString (isPrivate entry),
        bool_toString (isFavorite entry)]"

text \<open>The arrow function of the \<open>markdown\<close> case (a template literal).\<close>

definition markdown_entry :: "platform \<Rightarrow> DiaryEntry \<Rightarrow> string" where
  "markdown_entry pf entry =
     (let tgs = (if length (entry_tags entry) > 0
                 then [newline] @ ''**Tags:** '' @ js_join '' '' (map (\<lambda>tag. ''#'' @ tag) (entry_tags entry))
                 else []);
          md = (case mood entry of
                  Some m \<Rightarrow> [newline] @ ''**Mood:** '' @ mood_name m
                | None \<Rightarrow> []);
          loc = (case location entry of
                   Some l \<Rightarrow> if l \<noteq> [] then [newline] @ ''**Location:** '' @ l else []
                 | None \<Rightarrow> []);
          wth = (case weather entry of
                   Some x \<Rightarrow> if x \<noteq> [] then [newline] @ ''**Weather:** '' @ x else []
                 | None \<Rightarrow> [])
      in ''# '' @ title entry @ [newline, newline]
         @ ''**Date:** '' @ toLocaleDateString pf (date entry) @ md @ loc @ wth @ tgs
         @ [newline, newline] @ ''---'' @ [newline, newline]
         @ content entry @ [newline, newline]
         @ ''---'' @ [newline]
         @ ''*Word count: '' @ show_nat (wordCount entry) @ '' | Reading time: ''
         @ show_nat (readingTime entry) @ '' min*'' @ [newline, newline])"

definition exportEntries :: "platform \<Rightarrow> string \<Rightarrow> DiaryStore \<Rightarrow> exn + string" where
  "exportEntries pf format s =
     (let es = (if length (filteredEntries s) > 0 then filteredEntries s else entries s)
      in if format = ''json'' then Inr (json_stringify pf es)
         else if format = ''csv'' then
           Inr (js_join [newline] ([js_join '','' csv_headers] @ map (csv_row pf) es))
         else if format = ''markdown'' then
           Inr (js_join [newline, newline] (map (markdown_entry pf) es))
         else Inl (Error ''Unsupported export format''))"

text \<open>
  The earlier variant of the store (\<open>hooks/useDiaryStore.ts\<close>): the same four
  actions without filters.
\<close>

record BasicStore =
  b_entries :: "DiaryEntry list"
  b_loading :: bool
  b_error :: "string option"

definition fetchEntries_basic :: "platform \<Rightarrow> world \<times> BasicStore \<Rightarrow> world \<times> BasicStore" where
  "fetchEntries_basic pf ws =
     (case ws of (w, s) \<Rightarrow>
        (let s1 = s\<lparr>b_loading := True, b_error := None\<rparr>
         in case tbl_orderBy_date_reverse pf w of
              (Inr es, w1) \<Rightarrow> (w1, s1\<lparr>b_entries := es, b_loading := False\<rparr>)
            | (Inl e, w1) \<Rightarrow>
                (w1, s1\<lparr>b_error := Some ''Failed to fetch diary entries'', b_loading := False\<rparr>)))"

definition addEntry_basic :: "platform \<Rightarrow> DiaryEntry \<Rightarrow> world \<times> BasicStore \<Rightarrow> world \<times> BasicStore" where
  "addEntry_basic pf entryData ws =
     (case ws of (w, s) \<Rightarrow>
        (let s1 = s\<lparr>b_loading := True, b_error := None\<rparr>;
             (now, w1) = new_Date pf w;
             entry = entryData\<lparr>entry_id := None, createdAt := now, updatedAt := now\<rparr>
         in case tbl_add pf entry w1 of
              (Inl e, w2) \<Rightarrow>
                (w2, s1\<lparr>b_error := Some ''Failed to add diary entry'', b_loading := False\<rparr>)
            | (Inr k, w2) \<Rightarrow> fetchEntries_basic pf (w2, s1)))"

definition updateEntry_basic :: "platform \<Rightarrow> nat \<Rightarrow> change list \<Rightarrow> world \<times> BasicStore
    \<Rightarrow> world \<times> BasicStore" where
  "updateEntry_basic pf key entryData ws =
     (case ws of (w, s) \<Rightarrow>
        (let s1 = s\<lparr>b_loading := True, b_error := None\<rparr>;
             (now, w1) = new_Date pf w
         in case tbl_update pf key (entryData @ [Set_updatedAt now]) w1 of
              (Inl e, w2) \<Rightarrow>
                (w2, s1\<lparr>b_error := Some ''Failed to update diary entry'', b_loading := False\<rparr>)
            | (Inr n, w2) \<Rightarrow> fetchEntries_basic pf (w2, s1)))"

definition deleteEntry_basic :: "platform \<Rightarrow> nat \<Rightarrow> world \<times> BasicStore \<Rightarrow> world \<times> BasicStore" where
  "deleteEntry_basic pf key ws =
     (case ws of (w, s) \<Rightarrow>
        (let s1 = s\<lparr>b_loading := True, b_error := None\<rparr>
         in case tbl_delete pf key w of
              (Inl e, w1) \<Rightarrow>
                (w1, s1\<lparr>b_error := Some ''Failed to delete diary entry'', b_loading := False\<rparr>)
            | (Inr u, w1) \<Rightarrow> fetchEntries_basic pf (w1, s1)))"

subsection \<open>The CSV format as the specification words it\<close>

text \<open>
  A second definition of the CSV text, written from the specification and not from
  the code: the header line, then one line per entry, each a comma-joined list of
  ten fields; title, content and tag list in double quotes, double quotes of title
  and content doubled, line feeds of the content written as backslash and \<open>n\<close>.
\<close>

fun double_quotes :: "string \<Rightarrow> string" where
  "double_quotes [] = []"
| "double_quotes (c # cs) =
     (if c = CHR 0x22 then CHR 0x22 # CHR 0x22 # double_quotes cs else c # double_quotes cs)"

fun escape_newlines :: "string \<Rightarrow> string" where
  "escape_newlines [] = []"
| "escape_newlines (c # cs) =
     (if c = CHR 0x0A then CHR 0x5C # CHR ''n'' # escape_newlines cs else c # escape_newlines cs)"

definition in_quotes :: "string \<Rightarrow> string" where
  "in_quotes s = CHR 0x22 # s @ [CHR 0x22]"

fun comma_joined :: "string list \<Rightarrow> string" where
  "comma_joined [] = []"
| "comma_joined [x] = x"
| "comma_joined (x # xs) = x @ CHR '','' # comma_joined xs"

definition spec_csv_line :: "platform \<Rightarrow> DiaryEntry \<Rightarrow> string" where
  "spec_csv_line pf e =
     comma_joined
       [takeWhile (\<lambda>c. c \<noteq> CHR ''T'') (toISOString pf (date e)),
        in_quotes (double_quotes (title e)),
        in_quotes (escape_newlines (double_quotes (content e))),
        (case mood e of None \<Rightarrow> [] | Some m \<Rightarrow> mood_name m),
        in_quotes (js_join '', '' (entry_tags e)),
        (case location e of None \<Rightarrow> [] | Some l \<Rightarrow> l),
        (case weather e of None \<Rightarrow> [] | Some x \<Rightarrow> x),
        show_nat (wordCount e),
        (if isPrivate e then ''true'' else ''false''),
        (if isFavorite e then ''true'' else ''false'')]"

fun spec_csv_lines :: "platform \<Rightarrow> DiaryEntry list \<Rightarrow> string" where
  "spec_csv_lines pf [] = []"
| "spec_csv_lines pf (e # es) = CHR 0x0A # spec_csv_line pf e @ spec_csv_lines pf es"

definition spec_csv :: "platform \<Rightarrow> DiaryEntry list \<Rightarrow> string" where
  "spec_csv pf es =
     ''Date,Title,Content,Mood,Tags,Location,Weather,Word Count,Private,Favorite''
     @ spec_csv_lines pf es"

subsection \<open>Notions used in the statements\<close>

text \<open>
  These are not part of the program.  They name what the properties speak about:
  an entry after a sync, two entries that differ in the sync fields only, a queue
  item after a failed attempt, the rows in the order of a refresh, the entry that
  \<open>addEntry\<close> stores, and a store after a failed action.
\<close>

definition same_but_sync_fields :: "DiaryEntry \<Rightarrow> DiaryEntry \<Rightarrow> bool" where
  "same_but_sync_fields r r' =
     (r' = r\<lparr>syncStatus := syncStatus r', lastSyncedAt := lastSyncedAt r', updatedAt := updatedAt r'\<rparr>)"

definition synced_at :: "platform \<Rightarrow> world \<Rightarrow> DiaryEntry \<Rightarrow> DiaryEntry" where
  "synced_at pf w r =
     r\<lparr>syncStatus := Synced, lastSyncedAt := Some (clock pf (w_ticks w)),
       updatedAt := clock pf (Suc (w_ticks w))\<rparr>"

definition retried :: "SyncQueueItem \<Rightarrow> SyncQueueItem" where
  "retried i = i\<lparr>retryCount := Suc (retryCount i)\<rparr>"

definition by_date_desc :: "DiaryEntry list \<Rightarrow> DiaryEntry list" where
  "by_date_desc rs = rev (sort_key (\<lambda>e. (date e, entry_id e)) rs)"

definition stored_entry :: "platform \<Rightarrow> world \<Rightarrow> DiaryEntry \<Rightarrow> DiaryEntry" where
  "stored_entry pf w p =
     p\<lparr>entry_id := Some (nextId w), createdAt := clock pf (w_ticks w),
       updatedAt := clock pf (w_ticks w)\<rparr>"

definition world_after_add :: "platform \<Rightarrow> world \<Rightarrow> DiaryEntry \<Rightarrow> world" where
  "world_after_add pf w p =
     w\<lparr>w_ticks := Suc (w_ticks w), calls := Suc (calls w),
       rows := rows w @ [stored_entry pf w p], nextId := Suc (nextId w)\<rparr>"

definition failed_with :: "string \<Rightarrow> DiaryStore \<Rightarrow> DiaryStore \<Rightarrow> bool" where
  "failed_with msg s s' =
     (error s' = Some msg \<and> loading s' = False \<and> entries s' = entries s
      \<and> filteredEntries s' = filteredEntries s \<and> currentFilters s' = currentFilters s)"

definition failed_with_basic :: "string \<Rightarrow> BasicStore \<Rightarrow> BasicStore \<Rightarrow> bool" where
  "failed_with_basic msg s s' =
     (b_error s' = Some msg \<and> b_loading s' = False \<and> b_entries s' = b_entries s)"

subsection \<open>Example states\<close>

definition ex_item :: "nat CacheItem" where
  "ex_item = \<lparr>data = Val 7, timestamp = 0, ttl = 1000, hits = 0, item_size = 4\<rparr>"

definition ex_cache :: "nat IntelligentCache" where
  "ex_cache = (new_cache 100 10)\<lparr>cache := [(''j'', ex_item)], ticks := 2\<rparr>"

definition ex_tagged :: "nat IntelligentCache" where
  "ex_tagged =
     (new_cache 100 10)
       \<lparr>cache := [(''j'', ex_item),
                  (''k'', \<lparr>data = Val 1, timestamp = 0, ttl = 1800000, hits = 0, item_size = 4\<rparr>)],
        tags := [''t'' \<mapsto> [''k'']], ticks := 4\<rparr>"






definition ex_platform :: platform where
  "ex_platform =
     \<lparr>clock = (\<lambda>n. 1000 + int n), faults = (\<lambda>n. False), toLowerCase = (\<lambda>s. s),
      toISOString = (\<lambda>t. ''2024-05-01T10:00:00.000Z''),
      toLocaleDateString = (\<lambda>t. ''5/1/2024''), json_stringify = (\<lambda>es. ''[...]'')\<rparr>"

definition ex_entry :: DiaryEntry where
  "ex_entry =
     \<lparr>entry_id = Some 1, title = ''Day'', content = ''a'' @ [CHR 0x22, CHR 0x0A] @ ''b'',
      date = 500, categoryId = None, mood = Some Happy, weather = None, location = Some ''Kano'',
      entry_tags = [''x'', ''y''], wordCount = 12, readingTime = 1, isPrivate = False,
      isFavorite = False, templateUsed = None, linkedEntryIds = None, syncStatus = Pending,
      lastSyncedAt = None, deviceId = ''dev'', version = 1, createdAt = 400, updatedAt = 400,
      conflictVersion = None\<rparr>"

definition ex_world :: world where
  "ex_world =
     \<lparr>rows = [ex_entry], nextId = 2, calls = 0, w_ticks = 0, timers = [], nextTimer = 0,
      events = [], ls_queue = None\<rparr>"

definition ex_store :: DiaryStore where
  "ex_store = initial_store\<lparr>entries := [ex_entry], filteredEntries := [ex_entry]\<rparr>"

definition ex_queue_item :: SyncQueueItem where
  "ex_queue_item =
     \<lparr>item_id = ''update_1_abc'', item_type = Update, entryId = Some 1, item_data = Some [],
      item_timestamp = 0, retryCount = 0, maxRetries = 3\<rparr>"

definition ex_manager :: BackgroundSyncManager where
  "ex_manager =
     \<lparr>syncQueue = [ex_queue_item], isOnline = True, syncInProgress = False,
      retryTimeouts = Map.empty\<rparr>"

definition ex_faulty :: platform where
  "ex_faulty = ex_platform\<lparr>faults := (\<lambda>n. True)\<rparr>"

definition ex_faulty_refresh :: platform where
  "ex_faulty_refresh = ex_platform\<lparr>faults := (\<lambda>n. n = 1)\<rparr>"

definition ex_payload :: DiaryEntry where
  "ex_payload = ex_entry\<lparr>entry_id := None, title := ''New'', date := 700\<rparr>"

definition ex_basic :: BasicStore where
  "ex_basic = \<lparr>b_entries = [ex_entry], b_loading = False, b_error = None\<rparr>"


section \<open>Properties\<close>

subsection \<open>Facts about the map operations\<close>

lemma map_of_map_set: "map_of (map_set k v m) = (map_of m)(k \<mapsto> v)"
  by (induction m) (auto simp: fun_eq_iff)

lemma map_of_map_delete: "map_of (map_delete k m) = (map_of m)(k := None)"
  by (induction m) (auto simp: map_delete_def fun_eq_iff)

lemma map_of_fold_delete:
  "map_of (fold map_delete ks m) k = (if k \<in> set ks then None else map_of m k)"
  by (induction ks arbitrary: m) (auto simp: map_of_map_delete)

lemma fold_delete_filter:
  "fold map_delete ks m = filter (\<lambda>(k, v). k \<notin> set ks) m"
  by (induction ks arbitrary: m) (auto simp: map_delete_def intro!: filter_cong)

subsection \<open>Eviction\<close>

lemma evictLRU_empty_key_state:
  "cache s = [([], item)] \<Longrightarrow>
   cache (evictLRU clk s) = [([], item)] \<and> maxItems (evictLRU clk s) = maxItems s"
  by (simp add: evictLRU_def Let_def map_delete_def split: prod.splits option.splits)

lemma shouldEvict_frame:
  "shouldEvict clk s = (b, s1) \<Longrightarrow>
   cache s1 = cache s \<and> maxItems s1 = maxItems s \<and> maxSize s1 = maxSize s \<and> tags s1 = tags s"
  by (auto simp: shouldEvict_def getStats_def date_now_def Let_def split: prod.splits)

lemma shouldEvict_full:
  "shouldEvict clk s = (b, s1) \<Longrightarrow> int (length (cache s)) \<ge> maxItems s \<Longrightarrow> b"
  by (auto simp: shouldEvict_def getStats_def date_now_def Let_def split: prod.splits)

lemma evictLRU_tags: "tags (evictLRU clk s) = tags s"
  by (simp add: evictLRU_def Let_def split: prod.splits option.splits)

lemma evict_loop_stuck:
  assumes "evict_loop clk s = Some y"
  shows "\<not> (cache s = [([], item)] \<and> maxItems s \<le> 1)"
proof (rule evict_loop.raw_induct
    [where P = "\<lambda>clk s y. \<not> (cache s = [([], item)] \<and> maxItems s \<le> 1)", OF _ assms])
  fix loop :: "clock \<Rightarrow> 'a IntelligentCache \<Rightarrow> 'a IntelligentCache option"
  fix clk s y
  assume IH: "\<And>s b y. loop s b = Some y \<Longrightarrow> \<not> (cache b = [([], item)] \<and> maxItems b \<le> 1)"
  assume step: "(case shouldEvict clk s of
      (b, s1) \<Rightarrow> if b then loop clk (evictLRU clk s1) else Some s1) = Some y"
  show "\<not> (cache s = [([], item)] \<and> maxItems s \<le> 1)"
  proof
    assume inv: "cache s = [([], item)] \<and> maxItems s \<le> 1"
    obtain b s1 where se: "shouldEvict clk s = (b, s1)" by (cases "shouldEvict clk s")
    from shouldEvict_frame [OF se] inv
    have inv1: "cache s1 = [([], item)]" "maxItems s1 \<le> 1" by simp_all
    from shouldEvict_full [OF se] inv have b by simp
    with step se have rec: "loop clk (evictLRU clk s1) = Some y" by simp
    from evictLRU_empty_key_state [OF inv1(1), of clk] inv1(2)
    have "cache (evictLRU clk s1) = [([], item)] \<and> maxItems (evictLRU clk s1) \<le> 1" by simp
    with IH [OF rec] show False by simp
  qed
qed

lemma evict_loop_diverges:
  "cache s = [([], item)] \<Longrightarrow> maxItems s \<le> 1 \<Longrightarrow> evict_loop clk s = None"
  using evict_loop_stuck [of clk s _ item] by (cases "evict_loop clk s") auto

lemma evict_loop_tags:
  assumes "evict_loop clk s = Some y"
  shows "tags y = tags s"
proof (rule evict_loop.raw_induct [where P = "\<lambda>clk s y. tags y = tags s", OF _ assms])
  fix loop :: "clock \<Rightarrow> 'a IntelligentCache \<Rightarrow> 'a IntelligentCache option"
  fix clk s y
  assume IH: "\<And>s b y. loop s b = Some y \<Longrightarrow> tags y = tags b"
  assume step: "(case shouldEvict clk s of
      (b, s1) \<Rightarrow> if b then loop clk (evictLRU clk s1) else Some s1) = Some y"
  obtain b s1 where se: "shouldEvict clk s = (b, s1)" by (cases "shouldEvict clk s")
  from shouldEvict_frame [OF se] have t1: "tags s1 = tags s" by simp
  show "tags y = tags s"
  proof (cases b)
    case True
    with step se have "loop clk (evictLRU clk s1) = Some y" by simp
    from IH [OF this] show ?thesis by (simp add: evictLRU_tags t1)
  next
    case False
    with step se have "y = s1" by simp
    with t1 show ?thesis by simp
  qed
qed

lemma cache_set_tags: "cache_set clk csz key d ttl0 s = Some s' \<Longrightarrow> tags s' = tags s"
  by (auto simp: cache_set_def Let_def date_now_def dest!: evict_loop_tags
      split: if_splits option.splits prod.splits)

lemma evict_loop_empty:
  "0 < maxItems s \<Longrightarrow> 0 < maxSize s \<Longrightarrow> cache s = [] \<Longrightarrow>
   evict_loop clk s = Some (s\<lparr>ticks := Suc (ticks s)\<rparr>)"
  by (subst evict_loop.simps) (simp add: shouldEvict_def getStats_def date_now_def Let_def)






lemma evictLRU_removes_selected:
  assumes "cache s \<noteq> []"
    and "lru_scan clk (ticks s) (cache s) (None, PosInf) = ((Some k, m), t)"
    and "k \<noteq> []"
  shows "cache (evictLRU clk s) = map_delete k (cache s)"
  using assms by (simp add: evictLRU_def)

text \<open>
  Claim C2 (eviction removes exactly the key of minimal score from every non-empty
  cache).  The code does not do this.  The test \<open>if (lruKey)\<close> that guards the
  deletion is a truthiness test, and the key \<open>''\<close> is falsy: a cache whose only
  key is the empty string is left as it is, whatever the clock and the item.  And
  an item read or stored in the millisecond of the scan has age \<open>0\<close> and so the
  score \<open>0 / 0 = NaN\<close> (or \<open>Infinity\<close>), which is never below the start value
  \<open>Infinity\<close>: no key is selected and nothing is removed.
\<close>

theorem evictLRU_keeps_falsy_key:
  "cache (evictLRU clk (s\<lparr>cache := [([], item)]\<rparr>)) = [([], item)]
   \<and> cache (evictLRU (\<lambda>n. 1000) ((new_cache 100 10 :: unit IntelligentCache)
        \<lparr>cache := [(''a'', \<lparr>data = Val (), timestamp = 1000, ttl = 5, hits = 0, item_size = 1\<rparr>)]\<rparr>))
      = [(''a'', \<lparr>data = Val (), timestamp = 1000, ttl = 5, hits = 0, item_size = 1\<rparr>)]"
proof
  show "cache (evictLRU clk (s\<lparr>cache := [([], item)]\<rparr>)) = [([], item)]"
    by (simp add: evictLRU_def Let_def map_delete_def split: prod.splits option.splits)
next
  show "cache (evictLRU (\<lambda>n. 1000) ((new_cache 100 10 :: unit IntelligentCache)
        \<lparr>cache := [(''a'', \<lparr>data = Val (), timestamp = 1000, ttl = 5, hits = 0, item_size = 1\<rparr>)]\<rparr>))
      = [(''a'', \<lparr>data = Val (), timestamp = 1000, ttl = 5, hits = 0, item_size = 1\<rparr>)]"
    by (simp add: evictLRU_def Let_def map_delete_def new_cache_def score_def)
qed























text \<open>
  The condition on the keys cannot be dropped.  The class itself takes any string
  as key: in a cache of capacity one that holds the key \<open>''\<close>, the loop of the
  next \<open>set\<close> finds the limit exceeded and removes nothing, whatever the clock.
\<close>

lemma set_stuck_on_empty_key:
  "\<exists>s1. cache_set clk (\<lambda>d. 4) [] d1 ttl1 (new_cache (50 * 1024 * 1024) 1) = Some s1
       \<and> cache_set clk (\<lambda>d. 4) key d2 ttl2 s1 = None"
proof -
  let ?s0 = "new_cache (50 * 1024 * 1024) 1 :: 'a IntelligentCache"
  have e: "evict_loop clk ?s0 = Some (?s0\<lparr>ticks := Suc (ticks ?s0)\<rparr>)"
    by (rule evict_loop_empty) (simp_all add: new_cache_def)
  define s1 where "s1 = ?s0\<lparr>ticks := 2,
      cache := [([], \<lparr>data = d1, timestamp = clk 1, ttl = ttl1, hits = 0, item_size = 4\<rparr>)]\<rparr>"
  have s1: "cache_set clk (\<lambda>d. 4) [] d1 ttl1 ?s0 = Some s1"
    unfolding cache_set_def e by (simp add: s1_def date_now_def new_cache_def)
  have c1: "cache s1 = [([], \<lparr>data = d1, timestamp = clk 1, ttl = ttl1, hits = 0, item_size = 4\<rparr>)]"
    and m1: "maxItems s1 = 1" and z1: "maxSize s1 = 50 * 1024 * 1024"
    by (simp_all add: s1_def new_cache_def)
  have "evict_loop clk s1 = None"
    by (rule evict_loop_diverges [OF c1]) (simp add: m1)
  then have "cache_set clk (\<lambda>d. 4) key d2 ttl2 s1 = None"
    by (simp add: cache_set_def z1)
  with s1 show ?thesis by blast
qed

subsection \<open>Reads\<close>

lemma cache_get_absent:
  "map_of (cache s) key = None \<Longrightarrow> cache_get clk key s = (Null, s\<lparr>misses := Suc (misses s)\<rparr>)"
  by (simp add: cache_get_def)

lemma cache_get_expired:
  "map_of (cache s) key = Some item \<Longrightarrow> clk (ticks s) - timestamp item > ttl item \<Longrightarrow>
   cache_get clk key s =
     (Null, s\<lparr>ticks := Suc (ticks s), cache := map_delete key (cache s), misses := Suc (misses s)\<rparr>)"
  by (simp add: cache_get_def date_now_def)

lemma cache_get_fresh:
  "map_of (cache s) key = Some item \<Longrightarrow> \<not> clk (ticks s) - timestamp item > ttl item \<Longrightarrow>
   cache_get clk key s =
     (data item,
      s\<lparr>ticks := Suc (Suc (ticks s)),
        cache := map_set key (item\<lparr>hits := Suc (hits item), timestamp := clk (Suc (ticks s))\<rparr>) (cache s),
        cache_hits := Suc (cache_hits s)\<rparr>)"
  by (simp add: cache_get_def date_now_def)

lemma cache_get_tags: "tags (snd (cache_get clk key s)) = tags s"
  by (simp add: cache_get_def date_now_def Let_def split: option.splits)

text \<open>
  Claim C6, as stated, fails in one direction: \<open>get\<close> returns the stored data, and
  the stored data may be \<open>null\<close>.  Here the key is present and not expired, and the
  result is \<open>null\<close>.
\<close>

theorem get_null_counterexample:
  "fst (cache_get (\<lambda>n. 5) ''k''
        ((new_cache 100 10 :: unit IntelligentCache)
           \<lparr>cache := [(''k'', \<lparr>data = Null, timestamp = 0, ttl = 1000, hits = 0, item_size = 4\<rparr>)]\<rparr>)) = Null
   \<and> map_of (cache ((new_cache 100 10 :: unit IntelligentCache)
           \<lparr>cache := [(''k'', \<lparr>data = Null, timestamp = 0, ttl = 1000, hits = 0, item_size = 4\<rparr>)]\<rparr>)) ''k''
       = Some \<lparr>data = Null, timestamp = 0, ttl = 1000, hits = 0, item_size = 4\<rparr>
   \<and> \<not> (5 - timestamp \<lparr>data = (Null :: unit nullable), timestamp = 0, ttl = 1000, hits = 0, item_size = 4\<rparr>
          > ttl \<lparr>data = (Null :: unit nullable), timestamp = 0, ttl = 1000, hits = 0, item_size = 4\<rparr>)"
  by (simp add: cache_get_def new_cache_def date_now_def)

text \<open>
  Claim C6, amended.  \<open>get\<close> on an absent key returns \<open>null\<close> and counts a miss.
  On a present key whose age at the first clock reading exceeds its lifetime it
  returns \<open>null\<close>, deletes the item and counts a miss.  On any other present key
  it returns the stored data, adds one to the item's hits, sets the item's
  timestamp to the second clock reading, counts a hit and leaves the other keys
  alone.  So the result is \<open>null\<close> exactly when the key is absent, or expired, or
  the data stored under it is \<open>null\<close>.
\<close>

theorem get_ttl_expiry:
  "(map_of (cache s) key = None \<longrightarrow>
      cache_get clk key s = (Null, s\<lparr>misses := Suc (misses s)\<rparr>))
   \<and> (\<forall>item. map_of (cache s) key = Some item \<and> clk (ticks s) - timestamp item > ttl item \<longrightarrow>
         fst (cache_get clk key s) = Null
         \<and> cache (snd (cache_get clk key s)) = map_delete key (cache s)
         \<and> map_of (cache (snd (cache_get clk key s))) key = None
         \<and> misses (snd (cache_get clk key s)) = Suc (misses s)
         \<and> cache_hits (snd (cache_get clk key s)) = cache_hits s)
   \<and> (\<forall>item. map_of (cache s) key = Some item \<and> \<not> clk (ticks s) - timestamp item > ttl item \<longrightarrow>
         fst (cache_get clk key s) = data item
         \<and> map_of (cache (snd (cache_get clk key s))) key
             = Some (item\<lparr>hits := Suc (hits item), timestamp := clk (Suc (ticks s))\<rparr>)
         \<and> (\<forall>k. k \<noteq> key \<longrightarrow> map_of (cache (snd (cache_get clk key s))) k = map_of (cache s) k)
         \<and> cache_hits (snd (cache_get clk key s)) = Suc (cache_hits s)
         \<and> misses (snd (cache_get clk key s)) = misses s)
   \<and> (fst (cache_get clk key s) = Null \<longleftrightarrow>
        (case map_of (cache s) key of
           None \<Rightarrow> True
         | Some item \<Rightarrow> clk (ticks s) - timestamp item > ttl item \<or> data item = Null))"
proof (intro conjI allI impI)
  assume "map_of (cache s) key = None"
  then show "cache_get clk key s = (Null, s\<lparr>misses := Suc (misses s)\<rparr>)"
    by (rule cache_get_absent)
next
  show "fst (cache_get clk key s) = Null \<longleftrightarrow>
        (case map_of (cache s) key of
           None \<Rightarrow> True
         | Some item \<Rightarrow> clk (ticks s) - timestamp item > ttl item \<or> data item = Null)"
  proof (cases "map_of (cache s) key")
    case None
    then show ?thesis by (simp add: cache_get_absent)
  next
    case (Some item)
    then show ?thesis
      by (cases "clk (ticks s) - timestamp item > ttl item")
         (simp_all add: cache_get_expired cache_get_fresh)
  qed
qed (simp_all add: cache_get_expired cache_get_fresh map_of_map_delete map_of_map_set)

theorem get_ttl_expiry_witness:
  "fst (cache_get (\<lambda>n. 2000) ''k''
        ((new_cache 100 10 :: nat IntelligentCache)
           \<lparr>cache := [(''k'', \<lparr>data = Val 7, timestamp = 0, ttl = 1000, hits = 0, item_size = 4\<rparr>)]\<rparr>)) = Null
   \<and> fst (cache_get (\<lambda>n. 500) ''k''
        ((new_cache 100 10 :: nat IntelligentCache)
           \<lparr>cache := [(''k'', \<lparr>data = Val 7, timestamp = 0, ttl = 1000, hits = 0, item_size = 4\<rparr>)]\<rparr>)) = Val 7
   \<and> fst (cache_get (\<lambda>n. 500) ''j''
        ((new_cache 100 10 :: nat IntelligentCache)
           \<lparr>cache := [(''k'', \<lparr>data = Val 7, timestamp = 0, ttl = 1000, hits = 0, item_size = 4\<rparr>)]\<rparr>)) = Null"
  using
    get_ttl_expiry [of "(new_cache 100 10 :: nat IntelligentCache)
           \<lparr>cache := [(''k'', \<lparr>data = Val 7, timestamp = 0, ttl = 1000, hits = 0, item_size = 4\<rparr>)]\<rparr>"
       "''k''" "\<lambda>n. 2000"]
    get_ttl_expiry [of "(new_cache 100 10 :: nat IntelligentCache)
           \<lparr>cache := [(''k'', \<lparr>data = Val 7, timestamp = 0, ttl = 1000, hits = 0, item_size = 4\<rparr>)]\<rparr>"
       "''k''" "\<lambda>n. 500"]
    get_ttl_expiry [of "(new_cache 100 10 :: nat IntelligentCache)
           \<lparr>cache := [(''k'', \<lparr>data = Val 7, timestamp = 0, ttl = 1000, hits = 0, item_size = 4\<rparr>)]\<rparr>"
       "''j''" "\<lambda>n. 500"]
  by (simp add: new_cache_def)

subsection \<open>Tags\<close>

lemma tag_key_registers: "registered_in (tag_key key tag tg) tag key"
  by (auto simp: registered_in_def tag_key_def set_add_def split: option.splits)

lemma tag_key_keeps: "registered_in tg t k \<Longrightarrow> registered_in (tag_key key tag tg) t k"
  by (auto simp: registered_in_def tag_key_def set_add_def Let_def split: option.splits)

lemma fold_tag_key_keeps:
  "registered_in tg t k \<Longrightarrow> registered_in (fold (tag_key key) tgs tg) t k"
  by (induction tgs arbitrary: tg) (auto intro: tag_key_keeps)

lemma fold_tag_key_registers:
  "tag \<in> set tgs \<Longrightarrow> registered_in (fold (tag_key key) tgs tg) tag key"
proof (induction tgs arbitrary: tg)
  case Nil then show ?case by simp
next
  case (Cons a tgs)
  show ?case
  proof (cases "a = tag")
    case True
    then show ?thesis
      by (simp add: fold_tag_key_keeps tag_key_registers)
  next
    case False
    with Cons.prems have "tag \<in> set tgs" by simp
    from Cons.IH [OF this] show ?thesis by simp
  qed
qed

lemma setWithTags_registers:
  "setWithTags clk csz key d tgs ttl_opt s0 = Some s \<Longrightarrow> tag \<in> set tgs \<Longrightarrow>
   registered_in (tags s) tag key"
  by (auto simp: setWithTags_def fold_tag_key_registers split: option.splits)

lemma setWithTags_keeps:
  "setWithTags clk csz k' d tgs ttl_opt s = Some s' \<Longrightarrow> registered_in (tags s) tag key \<Longrightarrow>
   registered_in (tags s') tag key"
  by (auto simp: setWithTags_def fold_tag_key_keeps dest!: cache_set_tags split: option.splits)

lemma invalidate_registered:
  "registered_in (tags s) tag key \<Longrightarrow> map_of (cache (invalidateByTag tag s)) key = None"
  by (auto simp: registered_in_def invalidateByTag_def map_of_fold_delete split: option.splits)

lemma invalidate_unregistered:
  "\<not> registered_in (tags s) tag key \<Longrightarrow>
     map_of (cache (invalidateByTag tag s)) key = map_of (cache s) key"
  by (auto simp: registered_in_def invalidateByTag_def map_of_fold_delete split: option.splits)

lemma invalidate_other_tag:
  "t \<noteq> tag \<Longrightarrow> registered_in (tags (invalidateByTag tag s)) t k = registered_in (tags s) t k"
  by (auto simp: registered_in_def invalidateByTag_def split: option.splits)

lemma invalidate_cache_filter:
  "cache (invalidateByTag tag s) = filter (\<lambda>(k, v). \<not> registered_in (tags s) tag k) (cache s)"
  by (auto simp: registered_in_def invalidateByTag_def fold_delete_filter split: option.splits)

text \<open>
  Claim C7 (tag-based invalidation).  A key is registered under a tag when the
  tag's key set holds it.  \<open>setWithTags\<close> registers its key under each of its tags.
  After \<open>invalidateByTag\<close>, a key registered under the tag is absent from the cache
  and \<open>get\<close> on it returns \<open>null\<close>; a key not registered under the tag has the item
  it had, and the cache is the old one without the registered keys.  A registration
  stays through \<open>get\<close>, \<open>set\<close>, \<open>setWithTags\<close> and the invalidation of any other
  tag.
\<close>

theorem invalidateByTag_removes_registered_keys:
  "(setWithTags clk csz key d tgs ttl_opt s0 = Some s \<and> tag \<in> set tgs \<longrightarrow>
      registered_in (tags s) tag key)
   \<and> (registered_in (tags s) tag key \<longrightarrow>
        map_of (cache (invalidateByTag tag s)) key = None
        \<and> fst (cache_get clk' key (invalidateByTag tag s)) = Null)
   \<and> (\<not> registered_in (tags s) tag key \<longrightarrow>
        map_of (cache (invalidateByTag tag s)) key = map_of (cache s) key)
   \<and> cache (invalidateByTag tag s) = filter (\<lambda>(k, v). \<not> registered_in (tags s) tag k) (cache s)
   \<and> (registered_in (tags s) tag key \<longrightarrow>
        registered_in (tags (snd (cache_get clk' k' s))) tag key
        \<and> (\<forall>s'. cache_set clk' csz k' d' ttl' s = Some s' \<longrightarrow> registered_in (tags s') tag key)
        \<and> (\<forall>s'. setWithTags clk' csz k' d' tgs' ttl_opt' s = Some s' \<longrightarrow>
               registered_in (tags s') tag key)
        \<and> (\<forall>tag'. tag' \<noteq> tag \<longrightarrow> registered_in (tags (invalidateByTag tag' s)) tag key))"
proof (intro conjI impI allI)
  assume "setWithTags clk csz key d tgs ttl_opt s0 = Some s \<and> tag \<in> set tgs"
  then show "registered_in (tags s) tag key"
    using setWithTags_registers by blast
next
  assume r: "registered_in (tags s) tag key"
  then show a: "map_of (cache (invalidateByTag tag s)) key = None"
    by (rule invalidate_registered)
  then show "fst (cache_get clk' key (invalidateByTag tag s)) = Null"
    by (simp add: cache_get_absent)
next
  assume "\<not> registered_in (tags s) tag key"
  then show "map_of (cache (invalidateByTag tag s)) key = map_of (cache s) key"
    by (rule invalidate_unregistered)
next
  show "cache (invalidateByTag tag s) = filter (\<lambda>(k, v). \<not> registered_in (tags s) tag k) (cache s)"
    by (rule invalidate_cache_filter)
next
  assume r: "registered_in (tags s) tag key"
  then show "registered_in (tags (snd (cache_get clk' k' s))) tag key"
    by (simp add: cache_get_tags)
next
  fix s'
  assume "registered_in (tags s) tag key" "cache_set clk' csz k' d' ttl' s = Some s'"
  then show "registered_in (tags s') tag key"
    by (simp add: cache_set_tags)
next
  fix s'
  assume "registered_in (tags s) tag key" "setWithTags clk' csz k' d' tgs' ttl_opt' s = Some s'"
  then show "registered_in (tags s') tag key"
    using setWithTags_keeps by blast
next
  fix tag'
  assume "registered_in (tags s) tag key" "tag' \<noteq> tag"
  then show "registered_in (tags (invalidateByTag tag' s)) tag key"
    by (simp add: invalidate_other_tag)
qed

theorem invalidateByTag_removes_registered_keys_witness:
  "setWithTags (\<lambda>n. 0) (\<lambda>d. 4) ''k'' (Val 1) [''t''] None ex_cache = Some ex_tagged
   \<and> registered_in (tags ex_tagged) ''t'' ''k''
   \<and> map_of (cache (invalidateByTag ''t'' ex_tagged)) ''k'' = None
   \<and> fst (cache_get (\<lambda>n. 0) ''k'' (invalidateByTag ''t'' ex_tagged)) = Null
   \<and> \<not> registered_in (tags ex_tagged) ''t'' ''j''
   \<and> map_of (cache (invalidateByTag ''t'' ex_tagged)) ''j'' = Some ex_item
   \<and> registered_in (tags (invalidateByTag ''u'' ex_tagged)) ''t'' ''k''"
proof -
  have loop: "evict_loop (\<lambda>n. 0) ex_cache = Some (ex_cache\<lparr>ticks := 3\<rparr>)"
    by (subst evict_loop.simps)
       (simp add: shouldEvict_def getStats_def date_now_def Let_def ex_cache_def new_cache_def
          ex_item_def)
  have run: "setWithTags (\<lambda>n. 0) (\<lambda>d. 4) ''k'' (Val 1) [''t''] None ex_cache = Some ex_tagged"
    unfolding setWithTags_def cache_set_def loop
    by (simp add: ex_cache_def ex_tagged_def new_cache_def date_now_def tag_key_def set_add_def)
  have no: "\<not> registered_in (tags ex_tagged) ''t'' ''j''"
    by (simp add: registered_in_def ex_tagged_def)
  have u: "''u'' \<noteq> ''t''" by simp
  note T = invalidateByTag_removes_registered_keys
         [where clk = "\<lambda>n. 0" and csz = "\<lambda>d. 4" and key = "''k''" and d = "Val 1"
            and tgs = "[''t'']" and ttl_opt = None and ?s0.0 = ex_cache and s = ex_tagged
            and tag = "''t''" and clk' = "\<lambda>n. 0" and k' = "''j''" and d' = "Val 2"
            and ttl' = 5 and tgs' = "[]" and ttl_opt' = None]
  have t: "''t'' \<in> set [''t'']" by simp
  from T [THEN conjunct1] run t
  have r: "registered_in (tags ex_tagged) ''t'' ''k''" by simp
  from T [THEN conjunct2, THEN conjunct1] r
  have k:
      "map_of (cache (invalidateByTag ''t'' ex_tagged)) ''k'' = None"
      "fst (cache_get (\<lambda>n. 0) ''k'' (invalidateByTag ''t'' ex_tagged)) = Null"
    by simp_all
  from T [THEN conjunct2, THEN conjunct2, THEN conjunct2, THEN conjunct2] r u
  have o: "registered_in (tags (invalidateByTag ''u'' ex_tagged)) ''t'' ''k''"
    by simp
  have j: "map_of (cache (invalidateByTag ''t'' ex_tagged)) ''j'' = Some ex_item"
    by (simp add: invalidateByTag_def ex_tagged_def map_delete_def)
  from run r k o no j show ?thesis by simp
qed

subsection \<open>The sync queue and the table\<close>

lemma same_but_sync_fields_refl: "same_but_sync_fields r r"
  by (simp add: same_but_sync_fields_def)

lemma same_but_sync_fields_trans:
  "same_but_sync_fields a b \<Longrightarrow> same_but_sync_fields b c \<Longrightarrow> same_but_sync_fields a c"
  unfolding same_but_sync_fields_def
  by (cases a, cases b, cases c) simp

lemma list_all2_map_self: "(\<And>x. x \<in> set xs \<Longrightarrow> P x (f x)) \<Longrightarrow> list_all2 P xs (map f xs)"
  by (induction xs) auto

lemma syncEntry_rows_eq:
  "rows (snd (syncEntry pf eid d w)) =
     (if \<not> faults pf (calls w) \<and> find (\<lambda>e. entry_id e = Some eid) (rows w) \<noteq> None
          \<and> \<not> faults pf (Suc (calls w))
      then map (\<lambda>r. if entry_id r = Some eid then synced_at pf w r else r) (rows w)
      else rows w)"
  by (simp add: syncEntry_def tbl_get_def tbl_update_def storage_call_def new_Date_def Let_def
        synced_at_def split: option.splits)

lemma syncEntry_rows:
  "list_all2 (\<lambda>r r'. r' = r \<or> (entry_id r = Some eid \<and> r' = synced_at pf w r))
     (rows w) (rows (snd (syncEntry pf eid d w)))"
  unfolding syncEntry_rows_eq
  by (simp add: list_all2_refl list_all2_map_self)

lemma syncItem_delete_rows:
  "item_type item = Delete \<Longrightarrow> rows (snd (syncItem pf item w)) = rows w"
  by (simp add: syncItem_def syncDelete_def Let_def split: option.splits)

lemma syncItem_rows:
  "list_all2 (\<lambda>r r'. r' = r \<or> (entry_id r = entryId item \<and> r' = synced_at pf w r))
     (rows w) (rows (snd (syncItem pf item w)))"
proof (cases "item_type item = Delete")
  case True
  then show ?thesis by (simp add: syncItem_delete_rows list_all2_refl)
next
  case False
  show ?thesis
  proof (cases "truthy_num (entryId item) \<and> item_data item \<noteq> None")
    case True
    then obtain eid d where e: "entryId item = Some eid" "item_data item = Some d"
      by (cases "entryId item") auto
    with False True have "syncItem pf item w = syncEntry pf eid d w"
      by (cases "item_type item") (simp_all add: syncItem_def Let_def)
    with syncEntry_rows [of eid pf w d] e show ?thesis by simp
  next
    case f: False
    with False have "syncItem pf item w = (Inr (), w)"
      by (cases "item_type item"; cases "entryId item"; cases "item_data item")
         (simp_all add: syncItem_def Let_def)
    then show ?thesis by (simp add: list_all2_refl)
  qed
qed

lemma synced_at_same: "same_but_sync_fields r (synced_at pf w r)"
  by (simp add: same_but_sync_fields_def synced_at_def)

lemma syncItem_same:
  "list_all2 same_but_sync_fields (rows w) (rows (snd (syncItem pf item w)))"
  by (rule list_all2_mono [OF syncItem_rows])
     (auto simp: same_but_sync_fields_refl synced_at_same)

lemma process_item_rows:
  "rows (fst (snd (process_item pf item (m, w, f)))) = rows (snd (syncItem pf item w))"
  by (cases "syncItem pf item w")
     (simp add: process_item_def clearTimeout_def scheduleRetry_def setTimeout_def Let_def
      split: sum.splits option.splits)

lemma list_all2_same_trans:
  "list_all2 same_but_sync_fields xs ys \<Longrightarrow> list_all2 same_but_sync_fields ys zs \<Longrightarrow>
   list_all2 same_but_sync_fields xs zs"
  using list_all2_trans [of same_but_sync_fields same_but_sync_fields same_but_sync_fields xs ys zs]
    same_but_sync_fields_trans by blast

lemma fold_process_same:
  "list_all2 same_but_sync_fields (rows w)
     (rows (fst (snd (fold (process_item pf) q (m, w, f)))))"
proof (induction q arbitrary: m w f)
  case Nil
  show ?case by (simp add: list_all2_refl same_but_sync_fields_refl)
next
  case (Cons item q)
  obtain m1 w1 f1 where p: "process_item pf item (m, w, f) = (m1, w1, f1)"
    by (cases "process_item pf item (m, w, f)")
  from process_item_rows [of pf item m w f] p
  have "rows w1 = rows (snd (syncItem pf item w))" by simp
  with syncItem_same [of w pf item] have a: "list_all2 same_but_sync_fields (rows w) (rows w1)"
    by simp
  from Cons.IH [of w1 m1 f1] a p show ?case
    by (auto intro: list_all2_same_trans)
qed

lemma fold_process_delete:
  "\<forall>i \<in> set q. item_type i = Delete \<Longrightarrow>
   rows (fst (snd (fold (process_item pf) q (m, w, f)))) = rows w"
proof (induction q arbitrary: m w f)
  case Nil
  show ?case by simp
next
  case (Cons item q)
  obtain m1 w1 f1 where p: "process_item pf item (m, w, f) = (m1, w1, f1)"
    by (cases "process_item pf item (m, w, f)")
  from process_item_rows [of pf item m w f] p Cons.prems
  have "rows w1 = rows w" by (simp add: syncItem_delete_rows)
  with Cons.IH [of m1 w1 f1] Cons.prems p show ?case by simp
qed

lemma processQueue_rows:
  "rows (snd (processQueue pf (m, w))) =
     (if syncInProgress m \<or> \<not> isOnline m \<or> syncQueue m = [] then rows w
      else rows (fst (snd (fold (process_item pf) (syncQueue m) (m\<lparr>syncInProgress := True\<rparr>, w, [])))))"
  by (simp add: processQueue_def saveSyncQueue_def Let_def split: prod.splits)

text \<open>
  Claim C1 (the sync calls only touch the local store).  Processing a \<open>delete\<close>
  item leaves the rows of \<open>diaryEntries\<close> as they are.  Processing any item leaves
  every row either unchanged or, if its key is the item's \<open>entryId\<close>, changed in
  \<open>syncStatus\<close>, \<open>lastSyncedAt\<close> and \<open>updatedAt\<close> only; for a \<open>create\<close> or
  \<open>update\<close> item with data whose entry exists, and with no storage failure, that
  change is made.  A whole run of \<open>processQueue\<close> changes no row outside these three
  fields, and a queue of \<open>delete\<close> items changes none.
\<close>

theorem sync_only_touches_sync_fields:
  "(item_type item = Delete \<longrightarrow> rows (snd (syncItem pf item w)) = rows w)
   \<and> list_all2 (\<lambda>r r'. r' = r \<or> (entry_id r = entryId item \<and> r' = synced_at pf w r))
         (rows w) (rows (snd (syncItem pf item w)))
   \<and> (item_type item \<noteq> Delete \<and> entryId item = Some eid \<and> eid \<noteq> 0 \<and> item_data item = Some d
        \<and> \<not> faults pf (calls w) \<and> \<not> faults pf (Suc (calls w))
        \<and> (\<exists>r \<in> set (rows w). entry_id r = Some eid) \<longrightarrow>
        rows (snd (syncItem pf item w))
          = map (\<lambda>r. if entry_id r = Some eid then synced_at pf w r else r) (rows w))
   \<and> list_all2 same_but_sync_fields (rows w) (rows (snd (processQueue pf (m, w))))
   \<and> ((\<forall>i \<in> set (syncQueue m). item_type i = Delete) \<longrightarrow>
        rows (snd (processQueue pf (m, w))) = rows w)"
proof (intro conjI impI)
  assume "item_type item = Delete"
  then show "rows (snd (syncItem pf item w)) = rows w" by (rule syncItem_delete_rows)
next
  show "list_all2 (\<lambda>r r'. r' = r \<or> (entry_id r = entryId item \<and> r' = synced_at pf w r))
         (rows w) (rows (snd (syncItem pf item w)))"
    by (rule syncItem_rows)
next
  assume a: "item_type item \<noteq> Delete \<and> entryId item = Some eid \<and> eid \<noteq> 0 \<and> item_data item = Some d
        \<and> \<not> faults pf (calls w) \<and> \<not> faults pf (Suc (calls w))
        \<and> (\<exists>r \<in> set (rows w). entry_id r = Some eid)"
  then have "syncItem pf item w = syncEntry pf eid d w"
    by (cases "item_type item") (simp_all add: syncItem_def Let_def)
  moreover from a have "find (\<lambda>e. entry_id e = Some eid) (rows w) \<noteq> None"
    by (auto simp: find_None_iff)
  ultimately show "rows (snd (syncItem pf item w))
          = map (\<lambda>r. if entry_id r = Some eid then synced_at pf w r else r) (rows w)"
    using a by (simp add: syncEntry_rows_eq)
next
  show "list_all2 same_but_sync_fields (rows w) (rows (snd (processQueue pf (m, w))))"
    unfolding processQueue_rows
    using fold_process_same [of w pf "syncQueue m" "m\<lparr>syncInProgress := True\<rparr>" "[]"]
    by (simp add: list_all2_refl same_but_sync_fields_refl)
next
  assume "\<forall>i \<in> set (syncQueue m). item_type i = Delete"
  from fold_process_delete [OF this, of pf "m\<lparr>syncInProgress := True\<rparr>" w "[]"]
  show "rows (snd (processQueue pf (m, w))) = rows w"
    unfolding processQueue_rows by simp
qed

lemma ex_sync_fail:
  "syncItem ex_faulty ex_queue_item ex_world = (Inl DbError, ex_world\<lparr>calls := 1\<rparr>)"
  by (simp add: syncItem_def syncEntry_def tbl_get_def storage_call_def ex_faulty_def
      ex_platform_def ex_queue_item_def ex_world_def Let_def)

theorem sync_only_touches_sync_fields_witness:
  "rows (snd (syncItem ex_platform (ex_queue_item\<lparr>item_type := Delete\<rparr>) ex_world)) = [ex_entry]
   \<and> rows (snd (syncItem ex_platform ex_queue_item ex_world))
       = [ex_entry\<lparr>syncStatus := Synced, lastSyncedAt := Some 1000, updatedAt := 1001\<rparr>]
   \<and> rows (snd (processQueue ex_platform
        (ex_manager\<lparr>syncQueue := [ex_queue_item\<lparr>item_type := Delete\<rparr>]\<rparr>, ex_world))) = [ex_entry]"
proof -
  note T1 = sync_only_touches_sync_fields
    [where item = "ex_queue_item\<lparr>item_type := Delete\<rparr>" and pf = ex_platform and w = ex_world
       and eid = 1 and d = "[]" and m = "ex_manager\<lparr>syncQueue := [ex_queue_item\<lparr>item_type := Delete\<rparr>]\<rparr>"]
  note T2 = sync_only_touches_sync_fields
    [where item = ex_queue_item and pf = ex_platform and w = ex_world
       and eid = 1 and d = "[]" and m = ex_manager]
  have a: "rows (snd (syncItem ex_platform (ex_queue_item\<lparr>item_type := Delete\<rparr>) ex_world)) = [ex_entry]"
    using T1 [THEN conjunct1] by (simp add: ex_world_def)
  have b: "rows (snd (syncItem ex_platform ex_queue_item ex_world))
       = [ex_entry\<lparr>syncStatus := Synced, lastSyncedAt := Some 1000, updatedAt := 1001\<rparr>]"
    using T2 [THEN conjunct2, THEN conjunct2, THEN conjunct1]
    by (simp add: ex_queue_item_def ex_platform_def ex_world_def ex_entry_def synced_at_def)
  have c: "rows (snd (processQueue ex_platform
        (ex_manager\<lparr>syncQueue := [ex_queue_item\<lparr>item_type := Delete\<rparr>]\<rparr>, ex_world))) = [ex_entry]"
    using T1 [THEN conjunct2, THEN conjunct2, THEN conjunct2, THEN conjunct2]
    by (simp add: ex_world_def)
  from a b c show ?thesis by simp
qed

subsection \<open>Retries\<close>

lemma process_item_retry:
  assumes "syncItem pf item w = (Inl e, w1)" "retryCount item < maxRetries item"
  shows "process_item pf item (m, w, failedItems) =
     (m\<lparr>retryTimeouts := (retryTimeouts m)(item_id item \<mapsto> nextTimer w1)\<rparr>,
      w1\<lparr>timers := timers w1 @ [(nextTimer w1, 2 ^ Suc (retryCount item) * 1000)],
         nextTimer := Suc (nextTimer w1)\<rparr>,
      failedItems @ [item\<lparr>retryCount := Suc (retryCount item)\<rparr>])"
  using assms by (simp add: process_item_def scheduleRetry_def setTimeout_def Let_def)

lemma process_item_drop:
  assumes "syncItem pf item w = (Inl e, w1)" "\<not> retryCount item < maxRetries item"
  shows "process_item pf item (m, w, failedItems) = (m, w1, failedItems)"
  using assms by (simp add: process_item_def)

lemma process_item_failed:
  "set (snd (snd (process_item pf item (m, w, f))))
     \<subseteq> set f \<union> (if retryCount item < maxRetries item then {retried item} else {})"
  by (cases "syncItem pf item w")
     (auto simp: process_item_def scheduleRetry_def setTimeout_def Let_def retried_def
       split: sum.splits option.splits)

lemma fold_process_failed:
  "set (snd (snd (fold (process_item pf) q (m, w, f))))
     \<subseteq> set f \<union> retried ` {i \<in> set q. retryCount i < maxRetries i}"
proof (induction q arbitrary: m w f)
  case Nil
  show ?case by simp
next
  case (Cons item q)
  obtain m1 w1 f1 where p: "process_item pf item (m, w, f) = (m1, w1, f1)"
    by (cases "process_item pf item (m, w, f)")
  from process_item_failed [of pf item m w f] p
  have a: "set f1 \<subseteq> set f \<union> (if retryCount item < maxRetries item then {retried item} else {})"
    by simp
  from Cons.IH [of m1 w1 f1] p
  have b: "set (snd (snd (fold (process_item pf) (item # q) (m, w, f))))
      \<subseteq> set f1 \<union> retried ` {i \<in> set q. retryCount i < maxRetries i}"
    by simp
  from a b show ?case by (auto split: if_splits)
qed

lemma processQueue_queue:
  "\<not> syncInProgress m \<Longrightarrow> isOnline m \<Longrightarrow> syncQueue m \<noteq> [] \<Longrightarrow>
   syncQueue (fst (processQueue pf (m, w)))
     = snd (snd (fold (process_item pf) (syncQueue m) (m\<lparr>syncInProgress := True\<rparr>, w, [])))"
  by (simp add: processQueue_def Let_def split: prod.splits)

lemma processQueue_kept:
  "\<not> syncInProgress m \<Longrightarrow> isOnline m \<Longrightarrow> syncQueue m \<noteq> [] \<Longrightarrow>
   set (syncQueue (fst (processQueue pf (m, w))))
     \<subseteq> retried ` {i \<in> set (syncQueue m). retryCount i < maxRetries i}"
  using fold_process_failed [of pf "syncQueue m" "m\<lparr>syncInProgress := True\<rparr>" w "[]"]
  by (simp add: processQueue_queue)

lemma fold_process_grows:
  "set f \<subseteq> set (snd (snd (fold (process_item pf) q (m, w, f))))"
proof (induction q arbitrary: m w f)
  case Nil
  show ?case by simp
next
  case (Cons item q)
  obtain m1 w1 f1 where p: "process_item pf item (m, w, f) = (m1, w1, f1)"
    by (cases "process_item pf item (m, w, f)")
  have "set f \<subseteq> set f1"
    using p by (cases "syncItem pf item w")
      (auto simp: process_item_def scheduleRetry_def setTimeout_def Let_def
        split: sum.splits option.splits if_splits)
  with Cons.IH [of f1 m1 w1] p show ?case by auto
qed

lemma processQueue_keeps:
  assumes run: "\<not> syncInProgress m" "isOnline m"
    and q: "syncQueue m = pre @ item # post"
    and pre: "fold (process_item pf) pre (m\<lparr>syncInProgress := True\<rparr>, w, []) = (m1, w1, f1)"
    and fail: "syncItem pf item w1 = (Inl e, w2)"
    and less: "retryCount item < maxRetries item"
  shows "retried item \<in> set (syncQueue (fst (processQueue pf (m, w))))"
proof -
  from q have ne: "syncQueue m \<noteq> []" by simp
  obtain m3 w3 f3 where p: "process_item pf item (m1, w1, f1) = (m3, w3, f3)"
    by (cases "process_item pf item (m1, w1, f1)")
  from process_item_retry [OF fail less, of m1 f1] p
  have "retried item \<in> set f3" by (simp add: retried_def)
  with fold_process_grows [of f3 pf post m3 w3]
  have "retried item \<in> set (snd (snd (fold (process_item pf) post (m3, w3, f3))))"
    by blast
  with pre p q show ?thesis
    by (simp add: processQueue_queue [OF run ne])
qed

lemma processQueue_maxRetries:
  assumes "\<forall>i \<in> set (syncQueue m). maxRetries i = n"
  shows "\<forall>i \<in> set (syncQueue (fst (processQueue pf (m, w)))). maxRetries i = n"
proof (cases "\<not> syncInProgress m \<and> isOnline m \<and> syncQueue m \<noteq> []")
  case True
  with processQueue_kept [of m pf w] assms show ?thesis
    by (auto simp: retried_def)
next
  case False
  then have "processQueue pf (m, w) = (m, w)"
    by (auto simp: processQueue_def)
  with assms show ?thesis by simp
qed

lemma addToQueue_maxRetries:
  assumes "\<forall>i \<in> set (syncQueue m). maxRetries i = 3"
  shows "\<forall>i \<in> set (syncQueue (fst (snd (addToQueue pf sfx ty eid d (m, w))))). maxRetries i = 3"
proof -
  obtain t0 w1 where a: "(if truthy_num eid then (0, w) else new_Date pf w) = (t0, w1)"
    by (cases "if truthy_num eid then (0, w) else new_Date pf w")
  obtain ts w2 where b: "new_Date pf w1 = (ts, w2)" by (cases "new_Date pf w1")
  define item where "item = \<lparr>item_id = type_name ty @ ''_''
        @ show_nat (case eid of Some n \<Rightarrow> if n \<noteq> 0 then n else nat t0 | None \<Rightarrow> nat t0)
        @ ''_'' @ sfx,
      item_type = ty, entryId = eid, item_data = d, item_timestamp = ts,
      retryCount = 0, maxRetries = 3\<rparr>"
  define m1 where "m1 = m\<lparr>syncQueue := syncQueue m @ [item]\<rparr>"
  have q: "\<forall>i \<in> set (syncQueue m1). maxRetries i = 3"
    using assms by (auto simp: m1_def item_def)
  have "fst (snd (addToQueue pf sfx ty eid d (m, w)))
      = (if isOnline m1 then fst (processQueue pf (m1, saveSyncQueue m1 w2)) else m1)"
    by (simp add: addToQueue_def a b Let_def m1_def item_def split: prod.splits)
  with q processQueue_maxRetries [OF q, of pf "saveSyncQueue m1 w2"] show ?thesis
    by simp
qed

text \<open>
  Claim C3 (retries with exponential backoff).  When the sync of an item fails and
  its \<open>retryCount\<close> is below \<open>maxRetries\<close>, the loop adds one to \<open>retryCount\<close>,
  appends the item to \<open>failedItems\<close> and posts a timeout of \<open>2 ^ retryCount * 1000\<close>
  milliseconds, \<open>retryCount\<close> being the count just incremented (2000 ms after the
  first failure).  When it fails with \<open>retryCount\<close> not below \<open>maxRetries\<close>, nothing
  is appended and no timeout is posted.  After a run of \<open>processQueue\<close> the queue
  holds only items that were below their limit, with the count incremented, and it
  does hold every such item whose sync failed.  Every item that \<open>addToQueue\<close>
  creates has \<open>maxRetries = 3\<close>.
\<close>

theorem retry_with_exponential_backoff:
  "(syncItem pf item w = (Inl e, w1) \<and> retryCount item < maxRetries item \<longrightarrow>
      process_item pf item (m, w, failedItems) =
        (m\<lparr>retryTimeouts := (retryTimeouts m)(item_id item \<mapsto> nextTimer w1)\<rparr>,
         w1\<lparr>timers := timers w1 @ [(nextTimer w1, 2 ^ retryCount (retried item) * 1000)],
            nextTimer := Suc (nextTimer w1)\<rparr>,
         failedItems @ [retried item])
      \<and> retryCount (retried item) = retryCount item + 1)
   \<and> (syncItem pf item w = (Inl e, w1) \<and> \<not> retryCount item < maxRetries item \<longrightarrow>
        process_item pf item (m, w, failedItems) = (m, w1, failedItems))
   \<and> (\<not> syncInProgress m \<and> isOnline m \<and> syncQueue m \<noteq> [] \<longrightarrow>
        set (syncQueue (fst (processQueue pf (m, w))))
          \<subseteq> retried ` {i \<in> set (syncQueue m). retryCount i < maxRetries i})
   \<and> (\<not> syncInProgress m \<and> isOnline m \<and> syncQueue m = pre @ item # post
        \<and> fold (process_item pf) pre (m\<lparr>syncInProgress := True\<rparr>, w, []) = (m', w', failedItems)
        \<and> syncItem pf item w' = (Inl e, w1) \<and> retryCount item < maxRetries item \<longrightarrow>
        retried item \<in> set (syncQueue (fst (processQueue pf (m, w)))))
   \<and> ((\<forall>i \<in> set (syncQueue m). maxRetries i = 3) \<longrightarrow>
        (\<forall>i \<in> set (syncQueue (fst (snd (addToQueue pf sfx ty eid d (m, w))))). maxRetries i = 3))"
proof (intro conjI impI)
  assume "\<not> syncInProgress m \<and> isOnline m \<and> syncQueue m = pre @ item # post
        \<and> fold (process_item pf) pre (m\<lparr>syncInProgress := True\<rparr>, w, []) = (m', w', failedItems)
        \<and> syncItem pf item w' = (Inl e, w1) \<and> retryCount item < maxRetries item"
  then show "retried item \<in> set (syncQueue (fst (processQueue pf (m, w))))"
    using processQueue_keeps by blast
next
  assume a: "syncItem pf item w = (Inl e, w1) \<and> retryCount item < maxRetries item"
  then show "process_item pf item (m, w, failedItems) =
        (m\<lparr>retryTimeouts := (retryTimeouts m)(item_id item \<mapsto> nextTimer w1)\<rparr>,
         w1\<lparr>timers := timers w1 @ [(nextTimer w1, 2 ^ retryCount (retried item) * 1000)],
            nextTimer := Suc (nextTimer w1)\<rparr>,
         failedItems @ [retried item])"
    by (simp add: process_item_retry retried_def)
  show "retryCount (retried item) = retryCount item + 1" by (simp add: retried_def)
next
  assume "syncItem pf item w = (Inl e, w1) \<and> \<not> retryCount item < maxRetries item"
  then show "process_item pf item (m, w, failedItems) = (m, w1, failedItems)"
    by (simp add: process_item_drop)
next
  assume "\<not> syncInProgress m \<and> isOnline m \<and> syncQueue m \<noteq> []"
  then show "set (syncQueue (fst (processQueue pf (m, w))))
          \<subseteq> retried ` {i \<in> set (syncQueue m). retryCount i < maxRetries i}"
    by (simp add: processQueue_kept)
next
  assume "\<forall>i \<in> set (syncQueue m). maxRetries i = 3"
  then show "\<forall>i \<in> set (syncQueue (fst (snd (addToQueue pf sfx ty eid d (m, w))))). maxRetries i = 3"
    by (rule addToQueue_maxRetries)
qed

theorem retry_with_exponential_backoff_witness:
  "process_item ex_faulty ex_queue_item (ex_manager, ex_world, [])
     = (ex_manager\<lparr>retryTimeouts := [''update_1_abc'' \<mapsto> 0]\<rparr>,
        ex_world\<lparr>calls := 1, timers := [(0, 2000)], nextTimer := 1\<rparr>,
        [ex_queue_item\<lparr>retryCount := 1\<rparr>])
   \<and> process_item ex_faulty (ex_queue_item\<lparr>retryCount := 3\<rparr>) (ex_manager, ex_world, [])
     = (ex_manager, ex_world\<lparr>calls := 1\<rparr>, [])
   \<and> ex_queue_item\<lparr>retryCount := 1\<rparr> \<in> set (syncQueue (fst (processQueue ex_faulty (ex_manager, ex_world))))
   \<and> set (syncQueue (fst (processQueue ex_faulty (ex_manager, ex_world))))
       \<subseteq> {ex_queue_item\<lparr>retryCount := 1\<rparr>}
   \<and> list_all (\<lambda>i. maxRetries i = 3)
        (syncQueue (fst (snd (addToQueue ex_faulty ''xyz'' Create (Some 2) None
          (ex_manager, ex_world)))))"
proof -
  have f3: "syncItem ex_faulty (ex_queue_item\<lparr>retryCount := 3\<rparr>) ex_world
      = (Inl DbError, ex_world\<lparr>calls := 1\<rparr>)"
    by (simp add: syncItem_def syncEntry_def tbl_get_def storage_call_def ex_faulty_def
        ex_platform_def ex_queue_item_def ex_world_def Let_def)
  note T = retry_with_exponential_backoff
    [where pf = ex_faulty and item = ex_queue_item and w = ex_world and e = DbError
       and ?w1.0 = "ex_world\<lparr>calls := 1\<rparr>" and m = ex_manager and failedItems = "[]"
       and pre = "[]" and post = "[]" and m' = "ex_manager\<lparr>syncInProgress := True\<rparr>"
       and w' = ex_world and sfx = "''xyz''" and ty = Create and eid = "Some 2" and d = None]
  note T3 = retry_with_exponential_backoff
    [where pf = ex_faulty and item = "ex_queue_item\<lparr>retryCount := 3\<rparr>" and w = ex_world
       and e = DbError and ?w1.0 = "ex_world\<lparr>calls := 1\<rparr>" and m = ex_manager
       and failedItems = "[]"]
  have a: "process_item ex_faulty ex_queue_item (ex_manager, ex_world, [])
     = (ex_manager\<lparr>retryTimeouts := [''update_1_abc'' \<mapsto> 0]\<rparr>,
        ex_world\<lparr>calls := 1, timers := [(0, 2000)], nextTimer := 1\<rparr>,
        [ex_queue_item\<lparr>retryCount := 1\<rparr>])"
    using T [THEN conjunct1] ex_sync_fail
    by (simp add: retried_def ex_queue_item_def ex_manager_def ex_world_def)
  have b: "process_item ex_faulty (ex_queue_item\<lparr>retryCount := 3\<rparr>) (ex_manager, ex_world, [])
     = (ex_manager, ex_world\<lparr>calls := 1\<rparr>, [])"
    using T3 [THEN conjunct2, THEN conjunct1] f3
    by (simp add: ex_queue_item_def)
  have c: "set (syncQueue (fst (processQueue ex_faulty (ex_manager, ex_world))))
       \<subseteq> {ex_queue_item\<lparr>retryCount := 1\<rparr>}"
    using T [THEN conjunct2, THEN conjunct2, THEN conjunct1]
    by (auto simp: ex_manager_def retried_def ex_queue_item_def)
  have d: "ex_queue_item\<lparr>retryCount := 1\<rparr> \<in> set (syncQueue (fst (processQueue ex_faulty (ex_manager, ex_world))))"
    using T [THEN conjunct2, THEN conjunct2, THEN conjunct2, THEN conjunct1] ex_sync_fail
    by (simp add: ex_manager_def retried_def ex_queue_item_def)
  have e: "list_all (\<lambda>i. maxRetries i = 3)
        (syncQueue (fst (snd (addToQueue ex_faulty ''xyz'' Create (Some 2) None
          (ex_manager, ex_world)))))"
    using T [THEN conjunct2, THEN conjunct2, THEN conjunct2, THEN conjunct2]
    by (simp add: ex_manager_def ex_queue_item_def list_all_iff)
  from a b c d e show ?thesis by simp
qed

subsection \<open>The diary store\<close>

lemma sorted_fst:
  "sorted (map (\<lambda>e. (f e, g e)) xs) \<Longrightarrow> sorted (map f xs)"
  for f :: "'a \<Rightarrow> 'b::linorder" and g :: "'a \<Rightarrow> 'c::linorder"
  by (induction xs) (auto simp: less_eq_prod_def)

lemma by_date_desc_mset: "mset (by_date_desc rs) = mset rs"
  by (simp add: by_date_desc_def)

lemma by_date_desc_set: "set (by_date_desc rs) = set rs"
  by (simp add: by_date_desc_def)

lemma by_date_desc_sorted: "sorted_wrt (\<lambda>a b. date a \<ge> date b) (by_date_desc rs)"
proof -
  have "sorted (map (\<lambda>e. (date e, entry_id e)) (sort_key (\<lambda>e. (date e, entry_id e)) rs))"
    by (rule sorted_sort_key)
  then have "sorted (map date (sort_key (\<lambda>e. (date e, entry_id e)) rs))"
    by (rule sorted_fst)
  then have "sorted_wrt (\<lambda>a b. date a \<le> date b) (sort_key (\<lambda>e. (date e, entry_id e)) rs)"
    by (simp add: sorted_map)
  then show ?thesis
    by (simp add: by_date_desc_def sorted_wrt_rev)
qed

lemma fetchEntries_fault:
  "faults pf (calls w) \<Longrightarrow>
   fetchEntries pf (w, s) =
     (w\<lparr>calls := Suc (calls w)\<rparr>,
      s\<lparr>loading := False, error := Some ''Failed to fetch diary entries''\<rparr>)"
  by (simp add: fetchEntries_def tbl_orderBy_date_reverse_def storage_call_def Let_def)

lemma fetchEntries_ok:
  "\<not> faults pf (calls w) \<Longrightarrow>
   fetchEntries pf (w, s) =
     (w\<lparr>calls := Suc (calls w)\<rparr>,
      s\<lparr>loading := False, error := None, entries := by_date_desc (rows w),
        filteredEntries := applyFilters pf (by_date_desc (rows w)) (currentFilters s)\<rparr>)"
  by (simp add: fetchEntries_def tbl_orderBy_date_reverse_def storage_call_def Let_def by_date_desc_def)

lemma addEntry_fault:
  "faults pf (calls w) \<Longrightarrow>
   addEntry pf p (w, s) =
     (w\<lparr>w_ticks := Suc (w_ticks w), calls := Suc (calls w)\<rparr>,
      s\<lparr>loading := False, error := Some ''Failed to add diary entry''\<rparr>)"
  by (simp add: addEntry_def tbl_add_def storage_call_def new_Date_def Let_def)

lemma addEntry_stored:
  "\<not> faults pf (calls w) \<Longrightarrow>
   addEntry pf p (w, s) =
     (case fetchEntries pf (world_after_add pf w p, s\<lparr>loading := True, error := None\<rparr>) of
        (w3, s2) \<Rightarrow> (snd (setTimeout 1000 w3), s2))"
  by (cases p) (simp add: addEntry_def tbl_add_def storage_call_def new_Date_def Let_def
      world_after_add_def stored_entry_def)

lemma updateEntry_fault:
  "faults pf (calls w) \<Longrightarrow>
   snd (updateEntry pf k cs (w, s)) = s\<lparr>loading := False, error := Some ''Failed to update diary entry''\<rparr>"
  by (simp add: updateEntry_def tbl_update_def storage_call_def new_Date_def Let_def)

lemma updateEntry_stored:
  "\<not> faults pf (calls w) \<Longrightarrow>
   updateEntry pf k cs (w, s) =
     fetchEntries pf
       (w\<lparr>w_ticks := Suc (w_ticks w), calls := Suc (calls w),
          rows := map (\<lambda>e. if entry_id e = Some k
                           then fold apply_change (cs @ [Set_updatedAt (clock pf (w_ticks w))]) e
                           else e) (rows w)\<rparr>,
        s\<lparr>loading := True, error := None\<rparr>)"
  by (simp add: updateEntry_def tbl_update_def storage_call_def new_Date_def Let_def)

lemma deleteEntry_fault:
  "faults pf (calls w) \<Longrightarrow>
   snd (deleteEntry pf k (w, s)) = s\<lparr>loading := False, error := Some ''Failed to delete diary entry''\<rparr>"
  by (simp add: deleteEntry_def tbl_delete_def storage_call_def Let_def)

lemma deleteEntry_stored:
  "\<not> faults pf (calls w) \<Longrightarrow>
   deleteEntry pf k (w, s) =
     fetchEntries pf
       (w\<lparr>calls := Suc (calls w), rows := filter (\<lambda>e. entry_id e \<noteq> Some k) (rows w)\<rparr>,
        s\<lparr>loading := True, error := None\<rparr>)"
  by (simp add: deleteEntry_def tbl_delete_def storage_call_def Let_def)

lemma fetchEntries_error_iff:
  "error (snd (fetchEntries pf (w, s))) = None \<longleftrightarrow> \<not> faults pf (calls w)"
  by (cases "faults pf (calls w)") (simp_all add: fetchEntries_fault fetchEntries_ok)

lemma addEntry_success:
  assumes "error (snd (addEntry pf p (w, s))) = None"
  shows "\<not> faults pf (calls w)" "\<not> faults pf (Suc (calls w))"
proof -
  show a: "\<not> faults pf (calls w)"
    using assms by (auto simp: addEntry_fault)
  show "\<not> faults pf (Suc (calls w))"
  proof
    assume f: "faults pf (Suc (calls w))"
    then have "faults pf (calls (world_after_add pf w p))" by (simp add: world_after_add_def)
    from fetchEntries_fault [OF this] a assms show False
      by (simp add: addEntry_stored)
  qed
qed

lemma addEntry_ok:
  assumes "\<not> faults pf (calls w)" "\<not> faults pf (Suc (calls w))"
  shows "rows (fst (addEntry pf p (w, s))) = rows w @ [stored_entry pf w p]"
    and "entries (snd (addEntry pf p (w, s))) = by_date_desc (rows w @ [stored_entry pf w p])"
    and "loading (snd (addEntry pf p (w, s))) = False"
proof -
  from assms(2) have "\<not> faults pf (calls (world_after_add pf w p))"
    by (simp add: world_after_add_def)
  from fetchEntries_ok [OF this] assms(1)
  have "addEntry pf p (w, s) =
     (snd (setTimeout 1000 ((world_after_add pf w p)\<lparr>calls := Suc (calls (world_after_add pf w p))\<rparr>)),
      s\<lparr>loading := False, error := None, entries := by_date_desc (rows (world_after_add pf w p)),
        filteredEntries := applyFilters pf (by_date_desc (rows (world_after_add pf w p))) (currentFilters s)\<rparr>)"
    by (simp add: addEntry_stored)
  then show "rows (fst (addEntry pf p (w, s))) = rows w @ [stored_entry pf w p]"
    and "entries (snd (addEntry pf p (w, s))) = by_date_desc (rows w @ [stored_entry pf w p])"
    and "loading (snd (addEntry pf p (w, s))) = False"
    by (simp_all add: setTimeout_def world_after_add_def)
qed

lemma deleteEntry_success:
  assumes "error (snd (deleteEntry pf k (w, s))) = None"
  shows "\<not> faults pf (calls w)" "\<not> faults pf (Suc (calls w))"
proof -
  show a: "\<not> faults pf (calls w)"
    using assms by (auto simp: deleteEntry_fault)
  show "\<not> faults pf (Suc (calls w))"
  proof
    assume f: "faults pf (Suc (calls w))"
    with a assms show False
      by (simp add: deleteEntry_stored fetchEntries_fault)
  qed
qed

lemma deleteEntry_ok:
  assumes "\<not> faults pf (calls w)" "\<not> faults pf (Suc (calls w))"
  shows "rows (fst (deleteEntry pf k (w, s))) = filter (\<lambda>e. entry_id e \<noteq> Some k) (rows w)"
    and "entries (snd (deleteEntry pf k (w, s))) = by_date_desc (filter (\<lambda>e. entry_id e \<noteq> Some k) (rows w))"
  using assms by (simp_all add: deleteEntry_stored fetchEntries_ok)

lemma addEntry_error_iff:
  "error (snd (addEntry pf p (w, s))) = None \<longleftrightarrow> \<not> faults pf (calls w) \<and> \<not> faults pf (Suc (calls w))"
proof
  assume "error (snd (addEntry pf p (w, s))) = None"
  then show "\<not> faults pf (calls w) \<and> \<not> faults pf (Suc (calls w))"
    using addEntry_success by blast
next
  assume a: "\<not> faults pf (calls w) \<and> \<not> faults pf (Suc (calls w))"
  then have "\<not> faults pf (calls (world_after_add pf w p))" by (simp add: world_after_add_def)
  from fetchEntries_ok [OF this] a show "error (snd (addEntry pf p (w, s))) = None"
    by (simp add: addEntry_stored)
qed

lemma deleteEntry_error_iff:
  "error (snd (deleteEntry pf k (w, s))) = None \<longleftrightarrow> \<not> faults pf (calls w) \<and> \<not> faults pf (Suc (calls w))"
proof
  assume "error (snd (deleteEntry pf k (w, s))) = None"
  then show "\<not> faults pf (calls w) \<and> \<not> faults pf (Suc (calls w))"
    using deleteEntry_success by blast
next
  assume a: "\<not> faults pf (calls w) \<and> \<not> faults pf (Suc (calls w))"
  then show "error (snd (deleteEntry pf k (w, s))) = None"
    by (simp add: deleteEntry_stored fetchEntries_ok)
qed

text \<open>
  Claim C4 (CRUD round trip).  After \<open>addEntry\<close> without error the table holds the
  old rows and the new entry, whose \<open>createdAt\<close> and \<open>updatedAt\<close> are the same clock
  reading; the store's \<open>entries\<close> are exactly the rows of the table, in descending
  order of \<open>date\<close>, and the new entry is among them.  The same holds of the refresh
  \<open>fetchEntries\<close> alone.  After \<open>deleteEntry\<close> without error no entry of the list
  has the deleted key.
\<close>

theorem crud_round_trip:
  "(error (snd (addEntry pf p (w, s))) = None \<longrightarrow>
      rows (fst (addEntry pf p (w, s))) = rows w @ [stored_entry pf w p]
      \<and> mset (entries (snd (addEntry pf p (w, s)))) = mset (rows (fst (addEntry pf p (w, s))))
      \<and> sorted_wrt (\<lambda>a b. date a \<ge> date b) (entries (snd (addEntry pf p (w, s))))
      \<and> stored_entry pf w p \<in> set (entries (snd (addEntry pf p (w, s))))
      \<and> createdAt (stored_entry pf w p) = updatedAt (stored_entry pf w p)
      \<and> \<not> loading (snd (addEntry pf p (w, s))))
   \<and> (error (snd (fetchEntries pf (w, s))) = None \<longrightarrow>
        mset (entries (snd (fetchEntries pf (w, s)))) = mset (rows w)
        \<and> sorted_wrt (\<lambda>a b. date a \<ge> date b) (entries (snd (fetchEntries pf (w, s)))))
   \<and> (error (snd (deleteEntry pf k (w, s))) = None \<longrightarrow>
        (\<forall>e \<in> set (entries (snd (deleteEntry pf k (w, s)))). entry_id e \<noteq> Some k)
        \<and> rows (fst (deleteEntry pf k (w, s))) = filter (\<lambda>e. entry_id e \<noteq> Some k) (rows w)
        \<and> mset (entries (snd (deleteEntry pf k (w, s)))) = mset (rows (fst (deleteEntry pf k (w, s))))
        \<and> sorted_wrt (\<lambda>a b. date a \<ge> date b) (entries (snd (deleteEntry pf k (w, s)))))"
proof (intro conjI impI)
  assume ok: "error (snd (addEntry pf p (w, s))) = None"
  note nf = addEntry_success [OF ok]
  note r = addEntry_ok [OF nf, of p s]
  show "rows (fst (addEntry pf p (w, s))) = rows w @ [stored_entry pf w p]" by (rule r(1))
  show "mset (entries (snd (addEntry pf p (w, s)))) = mset (rows (fst (addEntry pf p (w, s))))"
    by (simp only: r by_date_desc_mset)
  show "sorted_wrt (\<lambda>a b. date a \<ge> date b) (entries (snd (addEntry pf p (w, s))))"
    by (simp only: r by_date_desc_sorted)
  show "stored_entry pf w p \<in> set (entries (snd (addEntry pf p (w, s))))"
    by (simp add: r by_date_desc_set)
  show "createdAt (stored_entry pf w p) = updatedAt (stored_entry pf w p)"
    by (simp add: stored_entry_def)
  show "\<not> loading (snd (addEntry pf p (w, s)))" by (simp add: r)
next
  assume "error (snd (fetchEntries pf (w, s))) = None"
  then have nf: "\<not> faults pf (calls w)" by (simp add: fetchEntries_error_iff)
  show "mset (entries (snd (fetchEntries pf (w, s)))) = mset (rows w)"
    by (simp add: fetchEntries_ok [OF nf] by_date_desc_mset)
  show "sorted_wrt (\<lambda>a b. date a \<ge> date b) (entries (snd (fetchEntries pf (w, s))))"
    by (simp add: fetchEntries_ok [OF nf] by_date_desc_sorted)
next
  assume ok: "error (snd (deleteEntry pf k (w, s))) = None"
  note nf = deleteEntry_success [OF ok]
  note r = deleteEntry_ok [OF nf, of k s]
  show "\<forall>e \<in> set (entries (snd (deleteEntry pf k (w, s)))). entry_id e \<noteq> Some k"
    by (simp add: r by_date_desc_set)
  show "rows (fst (deleteEntry pf k (w, s))) = filter (\<lambda>e. entry_id e \<noteq> Some k) (rows w)"
    by (rule r(1))
  show "mset (entries (snd (deleteEntry pf k (w, s)))) = mset (rows (fst (deleteEntry pf k (w, s))))"
    by (simp only: r by_date_desc_mset)
  show "sorted_wrt (\<lambda>a b. date a \<ge> date b) (entries (snd (deleteEntry pf k (w, s))))"
    by (simp only: r by_date_desc_sorted)
qed

theorem crud_round_trip_witness:
  "error (snd (addEntry ex_platform ex_payload (ex_world, ex_store))) = None
   \<and> rows (fst (addEntry ex_platform ex_payload (ex_world, ex_store)))
       = [ex_entry, ex_payload\<lparr>entry_id := Some 2, createdAt := 1000, updatedAt := 1000\<rparr>]
   \<and> ex_payload\<lparr>entry_id := Some 2, createdAt := 1000, updatedAt := 1000\<rparr>
       \<in> set (entries (snd (addEntry ex_platform ex_payload (ex_world, ex_store))))
   \<and> error (snd (fetchEntries ex_platform (ex_world, ex_store))) = None
   \<and> mset (entries (snd (fetchEntries ex_platform (ex_world, ex_store)))) = {#ex_entry#}
   \<and> error (snd (deleteEntry ex_platform 1 (ex_world, ex_store))) = None
   \<and> rows (fst (deleteEntry ex_platform 1 (ex_world, ex_store))) = []
   \<and> entries (snd (deleteEntry ex_platform 1 (ex_world, ex_store))) = []"
proof -
  note T = crud_round_trip
    [where pf = ex_platform and p = ex_payload and w = ex_world and s = ex_store and k = 1]
  have nf: "\<not> faults ex_platform n" for n by (simp add: ex_platform_def)
  have a: "error (snd (addEntry ex_platform ex_payload (ex_world, ex_store))) = None"
    by (simp add: addEntry_error_iff nf)
  have f: "error (snd (fetchEntries ex_platform (ex_world, ex_store))) = None"
    by (simp add: fetchEntries_error_iff nf)
  have d: "error (snd (deleteEntry ex_platform 1 (ex_world, ex_store))) = None"
    by (simp add: deleteEntry_error_iff nf)
  have s: "stored_entry ex_platform ex_world ex_payload
      = ex_payload\<lparr>entry_id := Some 2, createdAt := 1000, updatedAt := 1000\<rparr>"
    by (simp add: stored_entry_def ex_platform_def ex_world_def)
  from T [THEN conjunct1] a s
  have a': "rows (fst (addEntry ex_platform ex_payload (ex_world, ex_store)))
       = [ex_entry, ex_payload\<lparr>entry_id := Some 2, createdAt := 1000, updatedAt := 1000\<rparr>]"
    "ex_payload\<lparr>entry_id := Some 2, createdAt := 1000, updatedAt := 1000\<rparr>
       \<in> set (entries (snd (addEntry ex_platform ex_payload (ex_world, ex_store))))"
    by (simp_all add: ex_world_def)
  from T [THEN conjunct2, THEN conjunct1] f
  have f': "mset (entries (snd (fetchEntries ex_platform (ex_world, ex_store)))) = {#ex_entry#}"
    by (simp add: ex_world_def)
  from T [THEN conjunct2, THEN conjunct2] d
  have d': "rows (fst (deleteEntry ex_platform 1 (ex_world, ex_store))) = []"
    by (simp add: ex_world_def ex_entry_def)
  from T [THEN conjunct2, THEN conjunct2] d
  have "mset (entries (snd (deleteEntry ex_platform 1 (ex_world, ex_store))))
      = mset (rows (fst (deleteEntry ex_platform 1 (ex_world, ex_store))))"
    by blast
  with d' have d'': "entries (snd (deleteEntry ex_platform 1 (ex_world, ex_store))) = []"
    by simp
  from a a' f f' d d' d'' show ?thesis by simp
qed

lemma add_failed_late:
  assumes "\<not> faults pf (calls w)" "faults pf (Suc (calls w))"
  shows "failed_with ''Failed to fetch diary entries'' s (snd (addEntry pf p (w, s)))"
proof -
  from assms(2) have "faults pf (calls (world_after_add pf w p))"
    by (simp add: world_after_add_def)
  from fetchEntries_fault [OF this] assms(1) show ?thesis
    by (simp add: addEntry_stored failed_with_def)
qed

lemma update_failed_late:
  assumes "\<not> faults pf (calls w)" "faults pf (Suc (calls w))"
  shows "failed_with ''Failed to fetch diary entries'' s (snd (updateEntry pf k cs (w, s)))"
  using assms by (simp add: updateEntry_stored fetchEntries_fault failed_with_def)

lemma delete_failed_late:
  assumes "\<not> faults pf (calls w)" "faults pf (Suc (calls w))"
  shows "failed_with ''Failed to fetch diary entries'' s (snd (deleteEntry pf k (w, s)))"
  using assms by (simp add: deleteEntry_stored fetchEntries_fault failed_with_def)

lemma basic_first_call:
  assumes "faults pf (calls w)"
  shows "failed_with_basic ''Failed to fetch diary entries'' s (snd (fetchEntries_basic pf (w, s)))"
    and "failed_with_basic ''Failed to add diary entry'' s (snd (addEntry_basic pf p (w, s)))"
    and "failed_with_basic ''Failed to update diary entry'' s (snd (updateEntry_basic pf k cs (w, s)))"
    and "failed_with_basic ''Failed to delete diary entry'' s (snd (deleteEntry_basic pf k (w, s)))"
  using assms
  by (simp_all add: fetchEntries_basic_def addEntry_basic_def updateEntry_basic_def
      deleteEntry_basic_def tbl_orderBy_date_reverse_def tbl_add_def tbl_update_def tbl_delete_def
      storage_call_def new_Date_def Let_def failed_with_basic_def)

lemma basic_second_call:
  assumes "\<not> faults pf (calls w)" "faults pf (Suc (calls w))"
  shows "failed_with_basic ''Failed to fetch diary entries'' s (snd (addEntry_basic pf p (w, s)))"
    and "failed_with_basic ''Failed to fetch diary entries'' s (snd (updateEntry_basic pf k cs (w, s)))"
    and "failed_with_basic ''Failed to fetch diary entries'' s (snd (deleteEntry_basic pf k (w, s)))"
proof -
  show "failed_with_basic ''Failed to fetch diary entries'' s (snd (addEntry_basic pf p (w, s)))"
    using assms
    by (cases p) (simp add: addEntry_basic_def tbl_add_def storage_call_def new_Date_def Let_def
        fetchEntries_basic_def tbl_orderBy_date_reverse_def failed_with_basic_def)
  show "failed_with_basic ''Failed to fetch diary entries'' s (snd (updateEntry_basic pf k cs (w, s)))"
    using assms
    by (simp add: updateEntry_basic_def tbl_update_def storage_call_def new_Date_def Let_def
        fetchEntries_basic_def tbl_orderBy_date_reverse_def failed_with_basic_def)
  show "failed_with_basic ''Failed to fetch diary entries'' s (snd (deleteEntry_basic pf k (w, s)))"
    using assms
    by (simp add: deleteEntry_basic_def tbl_delete_def storage_call_def Let_def
        fetchEntries_basic_def tbl_orderBy_date_reverse_def failed_with_basic_def)
qed

text \<open>
  Claim C5 (storage errors become error strings).  The four actions return a store
  in every case.  When the first storage call of \<open>fetchEntries\<close>, \<open>addEntry\<close>,
  \<open>updateEntry\<close> or \<open>deleteEntry\<close> is rejected, the action ends with its own fixed
  message in \<open>error\<close>, with \<open>loading\<close> false, and with the lists of entries and the
  filters as they were.  When the change is stored and the refresh that follows is
  rejected, the message is that of \<open>fetchEntries\<close>, and the lists are again as they
  were.  Both variants of the store behave so.
\<close>

theorem storage_errors_become_error_strings:
  "(faults pf (calls w) \<longrightarrow>
      failed_with ''Failed to fetch diary entries'' s (snd (fetchEntries pf (w, s)))
      \<and> failed_with ''Failed to add diary entry'' s (snd (addEntry pf p (w, s)))
      \<and> failed_with ''Failed to update diary entry'' s (snd (updateEntry pf k cs (w, s)))
      \<and> failed_with ''Failed to delete diary entry'' s (snd (deleteEntry pf k (w, s)))
      \<and> failed_with_basic ''Failed to fetch diary entries'' b (snd (fetchEntries_basic pf (w, b)))
      \<and> failed_with_basic ''Failed to add diary entry'' b (snd (addEntry_basic pf p (w, b)))
      \<and> failed_with_basic ''Failed to update diary entry'' b (snd (updateEntry_basic pf k cs (w, b)))
      \<and> failed_with_basic ''Failed to delete diary entry'' b (snd (deleteEntry_basic pf k (w, b))))
   \<and> (\<not> faults pf (calls w) \<and> faults pf (Suc (calls w)) \<longrightarrow>
      failed_with ''Failed to fetch diary entries'' s (snd (addEntry pf p (w, s)))
      \<and> failed_with ''Failed to fetch diary entries'' s (snd (updateEntry pf k cs (w, s)))
      \<and> failed_with ''Failed to fetch diary entries'' s (snd (deleteEntry pf k (w, s)))
      \<and> failed_with_basic ''Failed to fetch diary entries'' b (snd (addEntry_basic pf p (w, b)))
      \<and> failed_with_basic ''Failed to fetch diary entries'' b (snd (updateEntry_basic pf k cs (w, b)))
      \<and> failed_with_basic ''Failed to fetch diary entries'' b (snd (deleteEntry_basic pf k (w, b))))"
proof (intro conjI impI)
  assume f: "faults pf (calls w)"
  show "failed_with ''Failed to fetch diary entries'' s (snd (fetchEntries pf (w, s)))"
    by (simp add: fetchEntries_fault [OF f] failed_with_def)
  show "failed_with ''Failed to add diary entry'' s (snd (addEntry pf p (w, s)))"
    by (simp add: addEntry_fault [OF f] failed_with_def)
  show "failed_with ''Failed to update diary entry'' s (snd (updateEntry pf k cs (w, s)))"
    by (simp add: updateEntry_fault [OF f] failed_with_def)
  show "failed_with ''Failed to delete diary entry'' s (snd (deleteEntry pf k (w, s)))"
    by (simp add: deleteEntry_fault [OF f] failed_with_def)
  show "failed_with_basic ''Failed to fetch diary entries'' b (snd (fetchEntries_basic pf (w, b)))"
    by (rule basic_first_call [OF f])
  show "failed_with_basic ''Failed to add diary entry'' b (snd (addEntry_basic pf p (w, b)))"
    by (rule basic_first_call [OF f])
  show "failed_with_basic ''Failed to update diary entry'' b (snd (updateEntry_basic pf k cs (w, b)))"
    by (rule basic_first_call [OF f])
  show "failed_with_basic ''Failed to delete diary entry'' b (snd (deleteEntry_basic pf k (w, b)))"
    by (rule basic_first_call [OF f])
next
  assume "\<not> faults pf (calls w) \<and> faults pf (Suc (calls w))"
  then have f: "\<not> faults pf (calls w)" "faults pf (Suc (calls w))" by simp_all
  show "failed_with ''Failed to fetch diary entries'' s (snd (addEntry pf p (w, s)))"
    by (rule add_failed_late [OF f])
  show "failed_with ''Failed to fetch diary entries'' s (snd (updateEntry pf k cs (w, s)))"
    by (rule update_failed_late [OF f])
  show "failed_with ''Failed to fetch diary entries'' s (snd (deleteEntry pf k (w, s)))"
    by (rule delete_failed_late [OF f])
  show "failed_with_basic ''Failed to fetch diary entries'' b (snd (addEntry_basic pf p (w, b)))"
    by (rule basic_second_call [OF f])
  show "failed_with_basic ''Failed to fetch diary entries'' b (snd (updateEntry_basic pf k cs (w, b)))"
    by (rule basic_second_call [OF f])
  show "failed_with_basic ''Failed to fetch diary entries'' b (snd (deleteEntry_basic pf k (w, b)))"
    by (rule basic_second_call [OF f])
qed

theorem storage_errors_become_error_strings_witness:
  "failed_with ''Failed to fetch diary entries'' ex_store (snd (fetchEntries ex_faulty (ex_world, ex_store)))
   \<and> failed_with ''Failed to add diary entry'' ex_store (snd (addEntry ex_faulty ex_payload (ex_world, ex_store)))
   \<and> failed_with ''Failed to update diary entry'' ex_store
        (snd (updateEntry ex_faulty 1 [Set_title ''t''] (ex_world, ex_store)))
   \<and> failed_with ''Failed to delete diary entry'' ex_store (snd (deleteEntry ex_faulty 1 (ex_world, ex_store)))
   \<and> failed_with_basic ''Failed to delete diary entry'' ex_basic
        (snd (deleteEntry_basic ex_faulty 1 (ex_world, ex_basic)))
   \<and> failed_with ''Failed to fetch diary entries'' ex_store
        (snd (addEntry ex_faulty_refresh ex_payload (ex_world, ex_store)))
   \<and> failed_with_basic ''Failed to fetch diary entries'' ex_basic
        (snd (deleteEntry_basic ex_faulty_refresh 1 (ex_world, ex_basic)))
   \<and> entries (snd (deleteEntry ex_faulty 1 (ex_world, ex_store))) = [ex_entry]"
proof -
  note T1 = storage_errors_become_error_strings
    [where pf = ex_faulty and w = ex_world and s = ex_store and b = ex_basic and p = ex_payload
       and k = 1 and cs = "[Set_title ''t'']"]
  note T2 = storage_errors_become_error_strings
    [where pf = ex_faulty_refresh and w = ex_world and s = ex_store and b = ex_basic
       and p = ex_payload and k = 1 and cs = "[Set_title ''t'']"]
  have f1: "faults ex_faulty (calls ex_world)"
    by (simp add: ex_faulty_def)
  have f2: "\<not> faults ex_faulty_refresh (calls ex_world) \<and> faults ex_faulty_refresh (Suc (calls ex_world))"
    by (simp add: ex_faulty_refresh_def ex_world_def)
  from T1 [THEN conjunct1] f1 T2 [THEN conjunct2] f2
  have a: "failed_with ''Failed to fetch diary entries'' ex_store (snd (fetchEntries ex_faulty (ex_world, ex_store)))
   \<and> failed_with ''Failed to add diary entry'' ex_store (snd (addEntry ex_faulty ex_payload (ex_world, ex_store)))
   \<and> failed_with ''Failed to update diary entry'' ex_store
        (snd (updateEntry ex_faulty 1 [Set_title ''t''] (ex_world, ex_store)))
   \<and> failed_with ''Failed to delete diary entry'' ex_store (snd (deleteEntry ex_faulty 1 (ex_world, ex_store)))
   \<and> failed_with_basic ''Failed to delete diary entry'' ex_basic
        (snd (deleteEntry_basic ex_faulty 1 (ex_world, ex_basic)))
   \<and> failed_with ''Failed to fetch diary entries'' ex_store
        (snd (addEntry ex_faulty_refresh ex_payload (ex_world, ex_store)))
   \<and> failed_with_basic ''Failed to fetch diary entries'' ex_basic
        (snd (deleteEntry_basic ex_faulty_refresh 1 (ex_world, ex_basic)))"
    by simp
  then have "entries (snd (deleteEntry ex_faulty 1 (ex_world, ex_store))) = entries ex_store"
    by (simp add: failed_with_def)
  then have "entries (snd (deleteEntry ex_faulty 1 (ex_world, ex_store))) = [ex_entry]"
    by (simp add: ex_store_def)
  with a show ?thesis by simp
qed

subsection \<open>Export\<close>

lemma replace_all_dquote: "replace_all dquote [dquote, dquote] s = double_quotes s"
  by (induction s) (simp_all add: replace_all_def dquote_def)

lemma replace_all_newline: "replace_all newline [backslash, CHR ''n''] s = escape_newlines s"
  by (induction s) (simp_all add: replace_all_def newline_def backslash_def)

lemma js_join_comma: "js_join '','' xs = comma_joined xs"
  by (induction xs rule: comma_joined.induct) simp_all

lemma csv_row_spec: "csv_row pf e = spec_csv_line pf e"
  unfolding csv_row_def spec_csv_line_def js_join_comma replace_all_dquote replace_all_newline
  by (simp add: in_quotes_def or_empty_def bool_toString_def dquote_def)

lemma js_join_lines:
  "js_join [newline] (h # map (csv_row pf) es) = h @ spec_csv_lines pf es"
  by (induction es arbitrary: h) (simp_all add: csv_row_spec newline_def)

lemma csv_header_line:
  "js_join '','' csv_headers
   = ''Date,Title,Content,Mood,Tags,Location,Weather,Word Count,Private,Favorite''"
  by (simp add: csv_headers_def)

lemma escape_newlines_no_newline: "CHR 0x0A \<notin> set (escape_newlines s)"
  by (induction s) simp_all

text \<open>
  Claim C8 (CSV export).  \<open>exportEntries\<close> with format \<open>csv\<close> returns the text that
  the specification describes: the header line, then for each exported entry, in
  order, a line feed and the comma-joined fields of the entry, with title, content
  and tag list in double quotes, the double quotes of title and content doubled,
  and the line feeds of the content written as backslash and \<open>n\<close>, so that the
  content field holds no line feed.  A format other than \<open>json\<close>, \<open>csv\<close> and
  \<open>markdown\<close> throws \<open>Unsupported export format\<close>.
\<close>

theorem csv_export_format:
  "exportEntries pf ''csv'' s
     = Inr (spec_csv pf (if filteredEntries s = [] then entries s else filteredEntries s))
   \<and> CHR 0x0A \<notin> set (in_quotes (escape_newlines (double_quotes (content e))))
   \<and> (format \<noteq> ''json'' \<and> format \<noteq> ''csv'' \<and> format \<noteq> ''markdown'' \<longrightarrow>
        exportEntries pf format s = Inl (Error ''Unsupported export format''))"
  by (simp add: exportEntries_def Let_def js_join_lines csv_header_line spec_csv_def
      in_quotes_def escape_newlines_no_newline)

theorem csv_export_format_witness:
  "exportEntries ex_platform ''csv'' ex_store =
     Inr (''Date,Title,Content,Mood,Tags,Location,Weather,Word Count,Private,Favorite'' @ [CHR 0x0A]
       @ ''2024-05-01,'' @ [CHR 0x22] @ ''Day'' @ [CHR 0x22] @ '','' @ [CHR 0x22] @ ''a''
       @ [CHR 0x22, CHR 0x22, CHR 0x5C] @ ''nb'' @ [CHR 0x22] @ '',happy,'' @ [CHR 0x22] @ ''x, y''
       @ [CHR 0x22] @ '',Kano,,12,false,false'')
   \<and> exportEntries ex_platform ''xml'' ex_store = Inl (Error ''Unsupported export format'')"
proof -
  note T = csv_export_format
    [where pf = ex_platform and s = ex_store and format = "''xml''" and e = ex_entry]
  have "spec_csv ex_platform [ex_entry] =
     ''Date,Title,Content,Mood,Tags,Location,Weather,Word Count,Private,Favorite'' @ [CHR 0x0A]
       @ ''2024-05-01,'' @ [CHR 0x22] @ ''Day'' @ [CHR 0x22] @ '','' @ [CHR 0x22] @ ''a''
       @ [CHR 0x22, CHR 0x22, CHR 0x5C] @ ''nb'' @ [CHR 0x22] @ '',happy,'' @ [CHR 0x22] @ ''x, y''
       @ [CHR 0x22] @ '',Kano,,12,false,false''"
    by (simp add: spec_csv_def spec_csv_line_def ex_entry_def ex_platform_def in_quotes_def
        show_nat.simps digit_char_def)
  with T [THEN conjunct1]
  have a: "exportEntries ex_platform ''csv'' ex_store =
     Inr (''Date,Title,Content,Mood,Tags,Location,Weather,Word Count,Private,Favorite'' @ [CHR 0x0A]
       @ ''2024-05-01,'' @ [CHR 0x22] @ ''Day'' @ [CHR 0x22] @ '','' @ [CHR 0x22] @ ''a''
       @ [CHR 0x22, CHR 0x22, CHR 0x5C] @ ''nb'' @ [CHR 0x22] @ '',happy,'' @ [CHR 0x22] @ ''x, y''
       @ [CHR 0x22] @ '',Kano,,12,false,false'')"
    by (simp add: ex_store_def initial_store_def)
  from T [THEN conjunct2, THEN conjunct2]
  have b: "exportEntries ex_platform ''xml'' ex_store = Inl (Error ''Unsupported export format'')"
    by simp
  from a b show ?thesis by simp
qed



end
